theory Spec2Isabelle
  imports Main "HOL-Library.Sublist"
begin

section \<open>Data model\<close>

text \<open>
  The program keeps one JSON document in \<^verbatim>\<open>DataManager.data\<close>: a dictionary from
  collection names to lists of records, every record being a dictionary from field names
  to values. The fields the lifecycle core reads and writes hold integers (the surrogate
  ids), strings (serial numbers, dates) or \<^verbatim>\<open>None\<close>; on these three kinds of values
  Python's \<^verbatim>\<open>==\<close> is structural equality. A key that is absent from a dictionary is
  \<open>None\<close> of the map; a key that is present with the value \<^verbatim>\<open>None\<close> is
  \<open>Some PyNone\<close>.
\<close>

datatype pyval = PyInt int | PyStr string | PyNone

type_synonym pydict = "string \<rightharpoonup> pyval"

text \<open>
  The ways a call can end without doing its work. \<open>KeyError\<close> and \<open>TypeError\<close> are
  the Python exceptions of \<^verbatim>\<open>d[k]\<close> on a missing key and of \<^verbatim>\<open>max\<close>/\<^verbatim>\<open>+\<close> on
  values that are not numbers. The first five are the early returns of
  \<^verbatim>\<open>app_logic.py\<close>, which print an error line (or, in \<^verbatim>\<open>get_part_lifecycle\<close>,
  return the string \<^verbatim>\<open>"Part instance not found."\<close>) and stop;
  \<open>JSONDecodeError\<close> is \<^verbatim>\<open>json.load\<close> failing on the file's text:
  \<^item> \<open>PartNotFound\<close>: \<^verbatim>\<open>Error: Part with serial number '...' not found.\<close>
  \<^item> \<open>TurbineNotFound\<close>: \<^verbatim>\<open>Error: Turbine with serial number '...' not found.\<close>
  \<^item> \<open>AlreadyInstalled\<close>: \<^verbatim>\<open>Error: Part '...' is already installed in a turbine.\<close>
  \<^item> \<open>NoActiveInstallation\<close>: \<^verbatim>\<open>Error: Part '...' has no active installation record to remove.\<close>
\<close>

datatype failure =
    PartNotFound | TurbineNotFound | AlreadyInstalled | NoActiveInstallation
  | InstanceNotFound | KeyError string | TypeError | JSONDecodeError

text \<open>
  \<^verbatim>\<open>DataManager\<close>: the in-memory document and the file it is saved to. Of the file only
  the number of \<^verbatim>\<open>save_data\<close> calls is kept.
\<close>

record data_manager =
  data :: "string \<rightharpoonup> pydict list"
  saves :: nat

definition save_data :: "data_manager \<Rightarrow> data_manager" where
  "save_data dm = dm\<lparr>saves := Suc (saves dm)\<rparr>"

text \<open>\<^verbatim>\<open>data_manager.data.get(key, [])\<close> and \<^verbatim>\<open>data_manager.data[key]\<close>.\<close>

definition data_get :: "data_manager \<Rightarrow> string \<Rightarrow> pydict list" where
  "data_get dm key = (case data dm key of None \<Rightarrow> [] | Some items \<Rightarrow> items)"

definition data_index :: "data_manager \<Rightarrow> string \<Rightarrow> failure + pydict list" where
  "data_index dm key = (case data dm key of None \<Rightarrow> Inl (KeyError key) | Some items \<Rightarrow> Inr items)"

text \<open>\<^verbatim>\<open>item[key]\<close> and \<^verbatim>\<open>item.get(key, default)\<close> on a record.\<close>

definition item_index :: "pydict \<Rightarrow> string \<Rightarrow> failure + pyval" where
  "item_index item key = (case item key of None \<Rightarrow> Inl (KeyError key) | Some v \<Rightarrow> Inr v)"

definition item_get :: "pydict \<Rightarrow> string \<Rightarrow> pyval \<Rightarrow> pyval" where
  "item_get item key dflt = (case item key of None \<Rightarrow> dflt | Some v \<Rightarrow> v)"

section \<open>Helper function\<close>

fun as_int :: "pyval \<Rightarrow> int option" where
  "as_int (PyInt n) = Some n"
| "as_int (PyStr s) = None"
| "as_int PyNone = None"

text \<open>
  \<^verbatim>\<open>_get_next_id(items_list, id_key)\<close>. An empty list gives 1. Otherwise
  \<^verbatim>\<open>max(item.get(id_key, 0) for item in items_list) + 1\<close>: a record without the key
  counts as 0; a string or \<^verbatim>\<open>None\<close> among the values makes \<^verbatim>\<open>max\<close> (two or more
  values) or \<^verbatim>\<open>+ 1\<close> (one value) raise \<^verbatim>\<open>TypeError\<close>.
\<close>

definition get_next_id :: "pydict list \<Rightarrow> string \<Rightarrow> failure + int" where
  "get_next_id items_list id_key =
     (if items_list = [] then Inr 1
      else case those (map (\<lambda>item. as_int (item_get item id_key (PyInt 0))) items_list) of
             None \<Rightarrow> Inl TypeError
           | Some ns \<Rightarrow> Inr (Max (set ns) + 1))"

section \<open>Adding records\<close>

text \<open>
  Every add function reads its collection with \<^verbatim>\<open>data_manager.data[...]\<close>, builds the
  record, appends it, saves and returns the record. The model returns the outcome and
  the data manager after the call.
\<close>

definition add_turbine ::
  "data_manager \<Rightarrow> pyval \<Rightarrow> pyval \<Rightarrow> pyval \<Rightarrow> (failure + pydict) \<times> data_manager" where
  "add_turbine dm serial_number frame_type location =
     (case data_index dm ''turbines'' of
        Inl e \<Rightarrow> (Inl e, dm)
      | Inr turbines \<Rightarrow>
          (case get_next_id turbines ''turbine_id'' of
             Inl e \<Rightarrow> (Inl e, dm)
           | Inr n \<Rightarrow>
               let new_turbine = [''turbine_id'' \<mapsto> PyInt n,
                                  ''serial_number'' \<mapsto> serial_number,
                                  ''frame_type'' \<mapsto> frame_type,
                                  ''location'' \<mapsto> location]
               in (Inr new_turbine,
                   save_data (dm\<lparr>data := (data dm)(''turbines'' \<mapsto> turbines @ [new_turbine])\<rparr>))))"

definition add_part_master ::
  "data_manager \<Rightarrow> pyval \<Rightarrow> pyval \<Rightarrow> pyval \<Rightarrow> (failure + pydict) \<times> data_manager" where
  "add_part_master dm part_number description manufacturer =
     (case data_index dm ''part_master'' of
        Inl e \<Rightarrow> (Inl e, dm)
      | Inr parts \<Rightarrow>
          let new_part = [''part_number'' \<mapsto> part_number,
                          ''description'' \<mapsto> description,
                          ''manufacturer'' \<mapsto> manufacturer]
          in (Inr new_part,
              save_data (dm\<lparr>data := (data dm)(''part_master'' \<mapsto> parts @ [new_part])\<rparr>)))"

definition add_part_instance ::
  "data_manager \<Rightarrow> pyval \<Rightarrow> pyval \<Rightarrow> (failure + pydict) \<times> data_manager" where
  "add_part_instance dm part_number serial_number =
     (case data_index dm ''part_instances'' of
        Inl e \<Rightarrow> (Inl e, dm)
      | Inr instances \<Rightarrow>
          (case get_next_id instances ''instance_id'' of
             Inl e \<Rightarrow> (Inl e, dm)
           | Inr n \<Rightarrow>
               let new_instance = [''instance_id'' \<mapsto> PyInt n,
                                   ''part_number'' \<mapsto> part_number,
                                   ''serial_number'' \<mapsto> serial_number]
               in (Inr new_instance,
                   save_data (dm\<lparr>data := (data dm)(''part_instances'' \<mapsto> instances @ [new_instance])\<rparr>))))"

text \<open>
  \<open>today\<close> is what \<^verbatim>\<open>datetime.date.today().isoformat()\<close> returns at the call; it is
  used when the date argument is \<^verbatim>\<open>None\<close>.
\<close>

definition add_installation_record ::
  "string \<Rightarrow> data_manager \<Rightarrow> pyval \<Rightarrow> pyval \<Rightarrow> pyval \<Rightarrow> (failure + pydict) \<times> data_manager" where
  "add_installation_record today dm instance_id turbine_id installation_date =
     (case data_index dm ''installation_history'' of
        Inl e \<Rightarrow> (Inl e, dm)
      | Inr history \<Rightarrow>
          let installation_date' =
                (if installation_date = PyNone then PyStr today else installation_date)
          in (case get_next_id history ''installation_id'' of
                Inl e \<Rightarrow> (Inl e, dm)
              | Inr n \<Rightarrow>
                  let new_record = [''installation_id'' \<mapsto> PyInt n,
                                    ''instance_id'' \<mapsto> instance_id,
                                    ''turbine_id'' \<mapsto> turbine_id,
                                    ''installation_date'' \<mapsto> installation_date']
                  in (Inr new_record,
                      save_data (dm\<lparr>data := (data dm)(''installation_history'' \<mapsto> history @ [new_record])\<rparr>))))"

text \<open>\<open>now\<close> is what \<^verbatim>\<open>datetime.datetime.now().isoformat()\<close> returns at the call.\<close>

definition add_maintenance_log ::
  "string \<Rightarrow> data_manager \<Rightarrow> pyval \<Rightarrow> pyval \<Rightarrow> pyval \<Rightarrow> (failure + pydict) \<times> data_manager" where
  "add_maintenance_log now dm instance_id description log_date =
     (case data_index dm ''maintenance_log'' of
        Inl e \<Rightarrow> (Inl e, dm)
      | Inr logs \<Rightarrow>
          let log_date' = (if log_date = PyNone then PyStr now else log_date)
          in (case get_next_id logs ''log_id'' of
                Inl e \<Rightarrow> (Inl e, dm)
              | Inr n \<Rightarrow>
                  let new_log = [''log_id'' \<mapsto> PyInt n,
                                 ''instance_id'' \<mapsto> instance_id,
                                 ''description'' \<mapsto> description,
                                 ''log_date'' \<mapsto> log_date']
                  in (Inr new_log,
                      save_data (dm\<lparr>data := (data dm)(''maintenance_log'' \<mapsto> logs @ [new_log])\<rparr>))))"

section \<open>Lookups\<close>

text \<open>
  The loop of \<^verbatim>\<open>get_turbine_by_serial\<close> and of \<^verbatim>\<open>get_part_by_serial\<close>: the first
  record whose \<^verbatim>\<open>serial_number\<close> equals the argument, \<^verbatim>\<open>None\<close> when the loop
  ends, \<^verbatim>\<open>KeyError\<close> at a record without the key.
\<close>

fun first_with_serial :: "pydict list \<Rightarrow> pyval \<Rightarrow> failure + pydict option" where
  "first_with_serial [] serial_number = Inr None"
| "first_with_serial (item # rest) serial_number =
     (case item_index item ''serial_number'' of
        Inl e \<Rightarrow> Inl e
      | Inr v \<Rightarrow> if v = serial_number then Inr (Some item)
               else first_with_serial rest serial_number)"

definition get_turbine_by_serial :: "data_manager \<Rightarrow> pyval \<Rightarrow> failure + pydict option" where
  "get_turbine_by_serial dm serial_number =
     first_with_serial (data_get dm ''turbines'') serial_number"

definition get_part_by_serial :: "data_manager \<Rightarrow> pyval \<Rightarrow> failure + pydict option" where
  "get_part_by_serial dm serial_number =
     first_with_serial (data_get dm ''part_instances'') serial_number"

definition get_all_part_instances :: "data_manager \<Rightarrow> pydict list" where
  "get_all_part_instances dm = data_get dm ''part_instances''"

definition get_all_installation_history :: "data_manager \<Rightarrow> pydict list" where
  "get_all_installation_history dm = data_get dm ''installation_history''"

definition get_all_maintenance_logs :: "data_manager \<Rightarrow> pydict list" where
  "get_all_maintenance_logs dm = data_get dm ''maintenance_log''"

section \<open>Core part management logic\<close>

text \<open>
  The check loop of \<^verbatim>\<open>install_part\<close>: is there a record with the instance's id and
  without the key \<^verbatim>\<open>removal_date\<close>? \<^verbatim>\<open>record['instance_id']\<close> is evaluated before
  \<^verbatim>\<open>part_instance['instance_id']\<close>, and both only inside the loop.
\<close>

fun already_installed :: "pydict list \<Rightarrow> pydict \<Rightarrow> failure + bool" where
  "already_installed [] part_instance = Inr False"
| "already_installed (record # rest) part_instance =
     (case item_index record ''instance_id'' of
        Inl e \<Rightarrow> Inl e
      | Inr rid \<Rightarrow>
          (case item_index part_instance ''instance_id'' of
             Inl e \<Rightarrow> Inl e
           | Inr pid \<Rightarrow>
               if rid = pid \<and> record ''removal_date'' = None then Inr True
               else already_installed rest part_instance))"

text \<open>
  \<^verbatim>\<open>install_part\<close> returns \<^verbatim>\<open>None\<close> on every path; which path was taken is the
  outcome of the model.
\<close>

definition install_part ::
  "string \<Rightarrow> data_manager \<Rightarrow> pyval \<Rightarrow> pyval \<Rightarrow> pyval \<Rightarrow> (failure + unit) \<times> data_manager" where
  "install_part today dm part_serial_number turbine_serial_number installation_date =
     (case get_part_by_serial dm part_serial_number of
        Inl e \<Rightarrow> (Inl e, dm)
      | Inr None \<Rightarrow> (Inl PartNotFound, dm)
      | Inr (Some part_instance) \<Rightarrow>
          (case get_turbine_by_serial dm turbine_serial_number of
             Inl e \<Rightarrow> (Inl e, dm)
           | Inr None \<Rightarrow> (Inl TurbineNotFound, dm)
           | Inr (Some turbine) \<Rightarrow>
               (case already_installed (get_all_installation_history dm) part_instance of
                  Inl e \<Rightarrow> (Inl e, dm)
                | Inr True \<Rightarrow> (Inl AlreadyInstalled, dm)
                | Inr False \<Rightarrow>
                    (case item_index part_instance ''instance_id'' of
                       Inl e \<Rightarrow> (Inl e, dm)
                     | Inr instance_id \<Rightarrow>
                         (case item_index turbine ''turbine_id'' of
                            Inl e \<Rightarrow> (Inl e, dm)
                          | Inr turbine_id \<Rightarrow>
                              (case add_installation_record today dm instance_id turbine_id
                                      installation_date of
                                 (Inl e, dm') \<Rightarrow> (Inl e, dm')
                               | (Inr new_record, dm') \<Rightarrow> (Inr (), dm')))))))"

text \<open>
  The search loop of \<^verbatim>\<open>remove_part\<close>: the position of the first record with the
  instance's id and without the key \<^verbatim>\<open>removal_date\<close>; the loop breaks there.
\<close>

fun find_active_record :: "pydict list \<Rightarrow> pydict \<Rightarrow> failure + nat option" where
  "find_active_record [] part_instance = Inr None"
| "find_active_record (record # rest) part_instance =
     (case item_index record ''instance_id'' of
        Inl e \<Rightarrow> Inl e
      | Inr rid \<Rightarrow>
          (case item_index part_instance ''instance_id'' of
             Inl e \<Rightarrow> Inl e
           | Inr pid \<Rightarrow>
               if rid = pid \<and> record ''removal_date'' = None then Inr (Some 0)
               else (case find_active_record rest part_instance of
                       Inl e \<Rightarrow> Inl e
                     | Inr None \<Rightarrow> Inr None
                     | Inr (Some i) \<Rightarrow> Inr (Some (Suc i)))))"

text \<open>
  \<^verbatim>\<open>active_record['removal_date'] = removal_date\<close> writes into the record object that
  sits in the list, so the list changes at that position and nowhere else (every position
  holds an object of its own: the records come from \<^verbatim>\<open>json.load\<close> or are fresh
  dictionaries appended by the add functions).
\<close>

definition remove_part ::
  "string \<Rightarrow> data_manager \<Rightarrow> pyval \<Rightarrow> pyval \<Rightarrow> (failure + unit) \<times> data_manager" where
  "remove_part today dm part_serial_number removal_date =
     (case get_part_by_serial dm part_serial_number of
        Inl e \<Rightarrow> (Inl e, dm)
      | Inr None \<Rightarrow> (Inl PartNotFound, dm)
      | Inr (Some part_instance) \<Rightarrow>
          let removal_date' = (if removal_date = PyNone then PyStr today else removal_date)
          in (case data_index dm ''installation_history'' of
                Inl e \<Rightarrow> (Inl e, dm)
              | Inr history \<Rightarrow>
                  (case find_active_record history part_instance of
                     Inl e \<Rightarrow> (Inl e, dm)
                   | Inr None \<Rightarrow> (Inl NoActiveInstallation, dm)
                   | Inr (Some i) \<Rightarrow>
                       (Inr (),
                        save_data (dm\<lparr>data := (data dm)(''installation_history'' \<mapsto>
                          history[i := (history ! i)(''removal_date'' \<mapsto> removal_date')])\<rparr>)))))"

subsection \<open>Queries\<close>

text \<open>\<^verbatim>\<open>next((p for p in ... if p['instance_id'] == instance_id), None)\<close>\<close>

fun first_with_instance_id :: "pydict list \<Rightarrow> pyval \<Rightarrow> failure + pydict option" where
  "first_with_instance_id [] instance_id = Inr None"
| "first_with_instance_id (p # rest) instance_id =
     (case item_index p ''instance_id'' of
        Inl e \<Rightarrow> Inl e
      | Inr v \<Rightarrow> if v = instance_id then Inr (Some p)
               else first_with_instance_id rest instance_id)"

text \<open>\<^verbatim>\<open>[r for r in ... if r['instance_id'] == instance_id]\<close>\<close>

fun all_with_instance_id :: "pydict list \<Rightarrow> pyval \<Rightarrow> failure + pydict list" where
  "all_with_instance_id [] instance_id = Inr []"
| "all_with_instance_id (r # rest) instance_id =
     (case item_index r ''instance_id'' of
        Inl e \<Rightarrow> Inl e
      | Inr v \<Rightarrow>
          (case all_with_instance_id rest instance_id of
             Inl e \<Rightarrow> Inl e
           | Inr rs \<Rightarrow> Inr (if v = instance_id then r # rs else rs)))"

text \<open>
  The dictionary \<^verbatim>\<open>get_part_lifecycle\<close> returns has a record under
  \<^verbatim>\<open>"part_details"\<close> and lists of records under the other keys.
\<close>

datatype view_val = RecordVal pydict | ListVal "pydict list"

definition get_part_lifecycle ::
  "data_manager \<Rightarrow> pyval \<Rightarrow> failure + (string \<rightharpoonup> view_val)" where
  "get_part_lifecycle dm instance_id =
     (case first_with_instance_id (get_all_part_instances dm) instance_id of
        Inl e \<Rightarrow> Inl e
      | Inr None \<Rightarrow> Inl InstanceNotFound
      | Inr (Some part_instance) \<Rightarrow>
          (case all_with_instance_id (get_all_installation_history dm) instance_id of
             Inl e \<Rightarrow> Inl e
           | Inr installation_history \<Rightarrow>
               (case all_with_instance_id (get_all_maintenance_logs dm) instance_id of
                  Inl e \<Rightarrow> Inl e
                | Inr maintenance_history \<Rightarrow>
                    Inr [''part_details'' \<mapsto> RecordVal part_instance,
                         ''installation_history'' \<mapsto> ListVal installation_history,
                         ''maintenance_log'' \<mapsto> ListVal maintenance_history])))"

text \<open>
  The set comprehension of \<^verbatim>\<open>get_installed_parts\<close>: \<^verbatim>\<open>rec['turbine_id']\<close> is read
  at every record, \<^verbatim>\<open>rec['instance_id']\<close> only at those that pass the condition.
\<close>

fun installed_instance_ids :: "pydict list \<Rightarrow> pyval \<Rightarrow> failure + pyval set" where
  "installed_instance_ids [] turbine_id = Inr {}"
| "installed_instance_ids (rec # rest) turbine_id =
     (case item_index rec ''turbine_id'' of
        Inl e \<Rightarrow> Inl e
      | Inr tid \<Rightarrow>
          if tid = turbine_id \<and> rec ''removal_date'' = None then
            (case item_index rec ''instance_id'' of
               Inl e \<Rightarrow> Inl e
             | Inr iid \<Rightarrow>
                 (case installed_instance_ids rest turbine_id of
                    Inl e \<Rightarrow> Inl e
                  | Inr ids \<Rightarrow> Inr (insert iid ids)))
          else installed_instance_ids rest turbine_id)"

text \<open>\<^verbatim>\<open>[inst for inst in ... if inst['instance_id'] in installed_instance_ids]\<close>\<close>

fun instances_in :: "pydict list \<Rightarrow> pyval set \<Rightarrow> failure + pydict list" where
  "instances_in [] ids = Inr []"
| "instances_in (inst # rest) ids =
     (case item_index inst ''instance_id'' of
        Inl e \<Rightarrow> Inl e
      | Inr iid \<Rightarrow>
          (case instances_in rest ids of
             Inl e \<Rightarrow> Inl e
           | Inr insts \<Rightarrow> Inr (if iid \<in> ids then inst # insts else insts)))"

definition get_installed_parts :: "data_manager \<Rightarrow> pyval \<Rightarrow> failure + pydict list" where
  "get_installed_parts dm turbine_id =
     (case installed_instance_ids (get_all_installation_history dm) turbine_id of
        Inl e \<Rightarrow> Inl e
      | Inr ids \<Rightarrow> instances_in (get_all_part_instances dm) ids)"

section \<open>Loading\<close>

text \<open>
  \<^verbatim>\<open>DataManager.load_data\<close>, called by the constructor. The argument is \<open>None\<close> when
  \<^verbatim>\<open>os.path.exists(self.filepath)\<close> is false, and otherwise what \<^verbatim>\<open>json.load\<close> makes of
  the file: the document, or an exception (an empty file is not JSON). A missing file is
  replaced by the default structure, which is saved at once.
\<close>

definition load_data ::
  "(failure + (string \<rightharpoonup> pydict list)) option \<Rightarrow> failure + data_manager" where
  "load_data file =
     (case file of
        Some (Inl e) \<Rightarrow> Inl e
      | Some (Inr document) \<Rightarrow> Inr \<lparr>data = document, saves = 0\<rparr>
      | None \<Rightarrow>
          Inr (save_data \<lparr>data = [''turbines'' \<mapsto> [],
                                 ''part_masters'' \<mapsto> [],
                                 ''part_instances'' \<mapsto> [],
                                 ''installation_records'' \<mapsto> []],
                          saves = 0\<rparr>))"

section \<open>Sequences of calls\<close>

datatype call =
    Install string pyval pyval pyval
  | Remove string pyval pyval

fun do_call :: "data_manager \<Rightarrow> call \<Rightarrow> (failure + unit) \<times> data_manager" where
  "do_call dm (Install today part_sn turbine_sn installation_date) =
     install_part today dm part_sn turbine_sn installation_date"
| "do_call dm (Remove today part_sn removal_date) =
     remove_part today dm part_sn removal_date"

text \<open>
  The data manager after a sequence of calls. A call that fails leaves the data manager
  as it was, so the states are the same whether the caller goes on after a failure or not.
\<close>

fun run_calls :: "data_manager \<Rightarrow> call list \<Rightarrow> data_manager" where
  "run_calls dm [] = dm"
| "run_calls dm (c # cs) = run_calls (snd (do_call dm c)) cs"

text \<open>The add functions as calls, with the collection and the id key each one uses.\<close>

datatype add_call =
    AddTurbine pyval pyval pyval
  | AddPartMaster pyval pyval pyval
  | AddPartInstance pyval pyval
  | AddInstallationRecord string pyval pyval pyval
  | AddMaintenanceLog string pyval pyval pyval

fun do_add :: "data_manager \<Rightarrow> add_call \<Rightarrow> (failure + pydict) \<times> data_manager" where
  "do_add dm (AddTurbine serial_number frame_type location) =
     add_turbine dm serial_number frame_type location"
| "do_add dm (AddPartMaster part_number description manufacturer) =
     add_part_master dm part_number description manufacturer"
| "do_add dm (AddPartInstance part_number serial_number) =
     add_part_instance dm part_number serial_number"
| "do_add dm (AddInstallationRecord today instance_id turbine_id installation_date) =
     add_installation_record today dm instance_id turbine_id installation_date"
| "do_add dm (AddMaintenanceLog now instance_id description log_date) =
     add_maintenance_log now dm instance_id description log_date"

fun run_adds :: "data_manager \<Rightarrow> add_call list \<Rightarrow> data_manager" where
  "run_adds dm [] = dm"
| "run_adds dm (c # cs) = run_adds (snd (do_add dm c)) cs"

fun collection_of :: "add_call \<Rightarrow> string" where
  "collection_of (AddTurbine _ _ _) = ''turbines''"
| "collection_of (AddPartMaster _ _ _) = ''part_master''"
| "collection_of (AddPartInstance _ _) = ''part_instances''"
| "collection_of (AddInstallationRecord _ _ _ _) = ''installation_history''"
| "collection_of (AddMaintenanceLog _ _ _ _) = ''maintenance_log''"

fun id_key_of :: "add_call \<Rightarrow> string option" where
  "id_key_of (AddTurbine _ _ _) = Some ''turbine_id''"
| "id_key_of (AddPartMaster _ _ _) = None"
| "id_key_of (AddPartInstance _ _) = Some ''instance_id''"
| "id_key_of (AddInstallationRecord _ _ _ _) = Some ''installation_id''"
| "id_key_of (AddMaintenanceLog _ _ _ _) = Some ''log_id''"

text \<open>The open installation records of an instance: its id, and no \<^verbatim>\<open>removal_date\<close> key.\<close>

definition is_open_for :: "pyval \<Rightarrow> pydict \<Rightarrow> bool" where
  "is_open_for instance_id record \<longleftrightarrow>
     record ''instance_id'' = Some instance_id \<and> record ''removal_date'' = None"

definition open_records :: "data_manager \<Rightarrow> pyval \<Rightarrow> pydict list" where
  "open_records dm instance_id =
     filter (is_open_for instance_id) (get_all_installation_history dm)"

section \<open>Derived notions used in the statements\<close>


text \<open>
  An instance has an open record on a turbine: some installation record names the
  turbine, has no \<^verbatim>\<open>removal_date\<close> key, and carries the instance's id.
\<close>

definition has_open_record_in :: "data_manager \<Rightarrow> pyval \<Rightarrow> pydict \<Rightarrow> bool" where
  "has_open_record_in dm turbine_id inst \<longleftrightarrow>
     (\<exists>rec\<in>set (get_all_installation_history dm).
        rec ''turbine_id'' = Some turbine_id \<and> rec ''removal_date'' = None \<and>
        rec ''instance_id'' \<noteq> None \<and> rec ''instance_id'' = inst ''instance_id'')"

text \<open>
  The keys \<^verbatim>\<open>get_installed_parts\<close> reads with \<^verbatim>\<open>[...]\<close> are present, so that it
  raises no \<^verbatim>\<open>KeyError\<close>.
\<close>

definition query_keys_present :: "data_manager \<Rightarrow> bool" where
  "query_keys_present dm \<longleftrightarrow>
     (\<forall>rec\<in>set (get_all_installation_history dm).
        rec ''turbine_id'' \<noteq> None \<and> rec ''instance_id'' \<noteq> None) \<and>
     (\<forall>inst\<in>set (get_all_part_instances dm). inst ''instance_id'' \<noteq> None)"

section \<open>Example documents\<close>

text \<open>
  The data of the example run at the end of \<^verbatim>\<open>app_logic.py\<close>: one turbine, one part
  master, one part instance; the installation history is a parameter.
\<close>

definition example_turbine :: pydict where
  "example_turbine = [''turbine_id'' \<mapsto> PyInt 1, ''serial_number'' \<mapsto> PyStr ''T-SN-101'',
                      ''frame_type'' \<mapsto> PyStr ''GE 1.5sle'', ''location'' \<mapsto> PyStr ''Wind Farm Alpha'']"

definition example_master :: pydict where
  "example_master = [''part_number'' \<mapsto> PyStr ''PN-1001'', ''description'' \<mapsto> PyStr ''Main Bearing'',
                     ''manufacturer'' \<mapsto> PyStr []]"

definition example_instance :: pydict where
  "example_instance = [''instance_id'' \<mapsto> PyInt 1, ''part_number'' \<mapsto> PyStr ''PN-1001'',
                       ''serial_number'' \<mapsto> PyStr ''PI-SN-001'']"

definition example_dm :: "pydict list \<Rightarrow> data_manager" where
  "example_dm history =
     \<lparr>data = [''turbines'' \<mapsto> [example_turbine],
              ''part_master'' \<mapsto> [example_master],
              ''part_instances'' \<mapsto> [example_instance],
              ''maintenance_log'' \<mapsto> [],
              ''installation_history'' \<mapsto> history],
      saves = 0\<rparr>"

definition example_record :: "int \<Rightarrow> pydict" where
  "example_record n = [''installation_id'' \<mapsto> PyInt n, ''instance_id'' \<mapsto> PyInt 1,
                       ''turbine_id'' \<mapsto> PyInt 1, ''installation_date'' \<mapsto> PyStr ''2024-05-10'']"

text \<open>A second part instance, and a document where it has two open records on turbine 1.\<close>

definition second_instance :: pydict where
  "second_instance = [''instance_id'' \<mapsto> PyInt 2, ''part_number'' \<mapsto> PyStr ''PN-2050'',
                      ''serial_number'' \<mapsto> PyStr ''PI-SN-002'']"

definition two_parts_dm :: data_manager where
  "two_parts_dm =
     \<lparr>data = [''part_instances'' \<mapsto> [example_instance, second_instance],
              ''installation_history'' \<mapsto>
                 [(example_record 1)(''instance_id'' \<mapsto> PyInt 2),
                  example_record 2,
                  (example_record 3)(''instance_id'' \<mapsto> PyInt 2)]],
      saves = 0\<rparr>"

text \<open>A record whose \<^verbatim>\<open>removal_date\<close> key is present with the value \<^verbatim>\<open>None\<close>.\<close>

definition none_record :: pydict where
  "none_record = (example_record 1)(''removal_date'' \<mapsto> PyNone)"

section \<open>Identifiers\<close>

lemma those_map_Some: "(\<forall>x\<in>set xs. \<exists>n. f x = Some n) \<Longrightarrow> those (map f xs) = Some (map (\<lambda>x. the (f x)) xs)"
  by (induction xs) auto

lemma those_Some_D: "those os = Some ns \<Longrightarrow> os = map Some ns"
  by (induction os arbitrary: ns) (auto split: option.splits)

lemma next_id_gt:
  assumes "get_next_id items k = Inr n" "r \<in> set items" "r k = Some (PyInt a)"
  shows "a < n"
proof -
  from assms(2) have ne: "items \<noteq> []" by auto
  with assms(1) obtain ns where
    th: "those (map (\<lambda>item. as_int (item_get item k (PyInt 0))) items) = Some ns"
    and n: "n = Max (set ns) + 1"
    by (auto simp: get_next_id_def split: option.splits)
  from those_Some_D[OF th] have "map (\<lambda>item. as_int (item_get item k (PyInt 0))) items = map Some ns" .
  moreover have "as_int (item_get r k (PyInt 0)) = Some a" using assms(3) by (simp add: item_get_def)
  ultimately have "Some a \<in> set (map Some ns)" using assms(2) by (metis image_eqI set_map)
  then have "a \<in> set ns" by auto
  then have "a \<le> Max (set ns)" by simp
  with n show ?thesis by simp
qed

lemma get_next_id_wf:
  assumes "items \<noteq> []" "\<forall>item\<in>set items. \<exists>n. item k = Some (PyInt n)"
  shows "get_next_id items k = Inr (Max {n. \<exists>item\<in>set items. item k = Some (PyInt n)} + 1)"
proof -
  let ?f = "\<lambda>item. as_int (item_get item k (PyInt 0))"
  have a: "\<forall>item\<in>set items. \<exists>n. ?f item = Some n"
    using assms(2) by (auto simp: item_get_def)
  have "set (map (\<lambda>x. the (?f x)) items) = {n. \<exists>item\<in>set items. item k = Some (PyInt n)}"
    using assms(2) by (force simp: item_get_def)
  then show ?thesis using assms(1) those_map_Some[OF a]
    by (simp add: get_next_id_def)
qed

lemma do_add_ok:
  assumes "do_add dm c = (Inr r, dm')"
  shows "\<exists>old. data dm (collection_of c) = Some old
           \<and> data dm' = (data dm)(collection_of c \<mapsto> old @ [r])
           \<and> (\<forall>k. id_key_of c = Some k \<longrightarrow>
                 (\<exists>n. get_next_id old k = Inr n \<and> r k = Some (PyInt n)))"
  using assms
  by (cases c)
     (auto simp: add_turbine_def add_part_master_def add_part_instance_def
        add_installation_record_def add_maintenance_log_def data_index_def save_data_def Let_def
        split: option.splits sum.splits)

lemma do_add_fail:
  assumes "do_add dm c = (Inl e, dm')"
  shows "dm' = dm"
  using assms
  by (cases c)
     (auto simp: add_turbine_def add_part_master_def add_part_instance_def
        add_installation_record_def add_maintenance_log_def data_index_def save_data_def Let_def
        split: option.splits sum.splits)

lemma do_add_grows:
  assumes "data dm col = Some xs"
  shows "\<exists>ys. data (snd (do_add dm c)) col = Some (xs @ ys)"
proof (cases "do_add dm c")
  case (Pair res dm')
  show ?thesis
  proof (cases res)
    case (Inl e)
    with Pair do_add_fail have "dm' = dm" by blast
    with Pair assms show ?thesis by simp
  next
    case (Inr r)
    with Pair do_add_ok obtain old where
      "data dm (collection_of c) = Some old"
      "data dm' = (data dm)(collection_of c \<mapsto> old @ [r])" by blast
    with Pair assms show ?thesis by (cases "col = collection_of c") auto
  qed
qed

lemma run_adds_grows:
  "data dm col = Some xs \<Longrightarrow> \<exists>ys. data (run_adds dm cs) col = Some (xs @ ys)"
proof (induction cs arbitrary: dm xs)
  case Nil
  then show ?case by simp
next
  case (Cons c cs)
  from do_add_grows[OF Cons.prems] obtain ys where
    "data (snd (do_add dm c)) col = Some (xs @ ys)" by blast
  from Cons.IH[OF this] show ?case by auto
qed

lemma ids_increase:
  assumes "do_add (run_adds dm cs1) c1 = (Inr r1, dm1)"
    and "do_add (run_adds dm1 cs2) c2 = (Inr r2, dm2)"
    and "collection_of c2 = collection_of c1"
    and "id_key_of c1 = Some k"
  shows "\<exists>a b. r1 k = Some (PyInt a) \<and> r2 k = Some (PyInt b) \<and> a < b"
proof -
  have k2: "id_key_of c2 = Some k" using assms(3,4) by (cases c1; cases c2) auto
  from do_add_ok[OF assms(1)] assms(4) obtain old a where
    d1: "data dm1 (collection_of c1) = Some (old @ [r1])" and a: "r1 k = Some (PyInt a)"
    by auto
  from run_adds_grows[OF d1] obtain ys where
    d2: "data (run_adds dm1 cs2) (collection_of c1) = Some ((old @ [r1]) @ ys)" by blast
  from do_add_ok[OF assms(2)] k2 assms(3) d2 obtain b where
    b: "get_next_id ((old @ [r1]) @ ys) k = Inr b" "r2 k = Some (PyInt b)" by auto
  have "r1 \<in> set ((old @ [r1]) @ ys)" by simp
  from next_id_gt[OF b(1) this a] have "a < b" .
  with a b show ?thesis by blast
qed


text \<open>
  C5. \<^verbatim>\<open>_get_next_id\<close> returns 1 on an empty collection and, on a collection whose
  records all carry an integer under the id key, the largest of these integers plus one.
  Consequently, in any sequence of add calls, a record added to a collection gets an id
  strictly greater than the id of every record added to that collection earlier:
  \<open>c1\<close> is any earlier add, \<open>c2\<close> any later add to the same collection, with any
  adds before and between them.
\<close>

theorem get_next_id_max_plus_one:
  "get_next_id [] k = Inr 1 \<and>
   (items \<noteq> [] \<and> (\<forall>item\<in>set items. \<exists>n. item k = Some (PyInt n)) \<longrightarrow>
      get_next_id items k = Inr (Max {n. \<exists>item\<in>set items. item k = Some (PyInt n)} + 1)) \<and>
   (do_add (run_adds dm cs1) c1 = (Inr r1, dm1) \<and>
    do_add (run_adds dm1 cs2) c2 = (Inr r2, dm2) \<and>
    collection_of c2 = collection_of c1 \<and> id_key_of c1 = Some k' \<longrightarrow>
      (\<exists>a b. r1 k' = Some (PyInt a) \<and> r2 k' = Some (PyInt b) \<and> a < b))"
proof (intro conjI impI)
  show "get_next_id [] k = Inr 1" by (simp add: get_next_id_def)
next
  assume "items \<noteq> [] \<and> (\<forall>item\<in>set items. \<exists>n. item k = Some (PyInt n))"
  then show "get_next_id items k = Inr (Max {n. \<exists>item\<in>set items. item k = Some (PyInt n)} + 1)"
    using get_next_id_wf by blast
next
  assume "do_add (run_adds dm cs1) c1 = (Inr r1, dm1) \<and>
    do_add (run_adds dm1 cs2) c2 = (Inr r2, dm2) \<and>
    collection_of c2 = collection_of c1 \<and> id_key_of c1 = Some k'"
  then show "\<exists>a b. r1 k' = Some (PyInt a) \<and> r2 k' = Some (PyInt b) \<and> a < b"
    using ids_increase by blast
qed

theorem get_next_id_max_plus_one_witness:
  "get_next_id [[''log_id'' \<mapsto> PyInt 3], [''log_id'' \<mapsto> PyInt 7]] ''log_id'' = Inr 8 \<and>
   do_add (run_adds \<lparr>data = [''part_instances'' \<mapsto> []], saves = 0\<rparr> [])
       (AddPartInstance (PyStr ''PN-1001'') (PyStr ''PI-SN-001''))
     = (Inr [''instance_id'' \<mapsto> PyInt 1, ''part_number'' \<mapsto> PyStr ''PN-1001'',
             ''serial_number'' \<mapsto> PyStr ''PI-SN-001''],
        \<lparr>data = [''part_instances'' \<mapsto>
                  [[''instance_id'' \<mapsto> PyInt 1, ''part_number'' \<mapsto> PyStr ''PN-1001'',
                    ''serial_number'' \<mapsto> PyStr ''PI-SN-001'']]], saves = 1\<rparr>) \<and>
   do_add (run_adds \<lparr>data = [''part_instances'' \<mapsto>
                  [[''instance_id'' \<mapsto> PyInt 1, ''part_number'' \<mapsto> PyStr ''PN-1001'',
                    ''serial_number'' \<mapsto> PyStr ''PI-SN-001'']]], saves = 1\<rparr> [])
       (AddPartInstance (PyStr ''PN-2050'') (PyStr ''PI-SN-002''))
     = (Inr [''instance_id'' \<mapsto> PyInt 2, ''part_number'' \<mapsto> PyStr ''PN-2050'',
             ''serial_number'' \<mapsto> PyStr ''PI-SN-002''],
        \<lparr>data = [''part_instances'' \<mapsto>
                  [[''instance_id'' \<mapsto> PyInt 1, ''part_number'' \<mapsto> PyStr ''PN-1001'',
                    ''serial_number'' \<mapsto> PyStr ''PI-SN-001''],
                   [''instance_id'' \<mapsto> PyInt 2, ''part_number'' \<mapsto> PyStr ''PN-2050'',
                    ''serial_number'' \<mapsto> PyStr ''PI-SN-002'']]], saves = 2\<rparr>) \<and>
   (\<exists>a b. [''instance_id'' \<mapsto> PyInt 1, ''part_number'' \<mapsto> PyStr ''PN-1001'',
            ''serial_number'' \<mapsto> PyStr ''PI-SN-001''] ''instance_id'' = Some (PyInt a) \<and>
          [''instance_id'' \<mapsto> PyInt 2, ''part_number'' \<mapsto> PyStr ''PN-2050'',
            ''serial_number'' \<mapsto> PyStr ''PI-SN-002''] ''instance_id'' = Some (PyInt b) \<and> a < b)"
proof -
  let ?r1 = "[''instance_id'' \<mapsto> PyInt 1, ''part_number'' \<mapsto> PyStr ''PN-1001'',
              ''serial_number'' \<mapsto> PyStr ''PI-SN-001'']"
  let ?r2 = "[''instance_id'' \<mapsto> PyInt 2, ''part_number'' \<mapsto> PyStr ''PN-2050'',
              ''serial_number'' \<mapsto> PyStr ''PI-SN-002'']"
  let ?dm0 = "\<lparr>data = [''part_instances'' \<mapsto> []], saves = 0\<rparr>"
  let ?dm1 = "\<lparr>data = [''part_instances'' \<mapsto> [?r1]], saves = 1\<rparr>"
  let ?dm2 = "\<lparr>data = [''part_instances'' \<mapsto> [?r1, ?r2]], saves = 2\<rparr>"
  let ?items = "[[''log_id'' \<mapsto> PyInt 3], [''log_id'' \<mapsto> PyInt (7::int)]]"
  have ne: "?items \<noteq> [] \<and> (\<forall>item\<in>set ?items. \<exists>n. item ''log_id'' = Some (PyInt n))"
    by simp
  have mx: "Max {n. \<exists>item\<in>set ?items. item ''log_id'' = Some (PyInt n)} = 7"
  proof -
    have "{n. \<exists>item\<in>set ?items. item ''log_id'' = Some (PyInt n)} = {3, 7}" by auto
    then show ?thesis by simp
  qed
  have s1: "do_add (run_adds ?dm0 []) (AddPartInstance (PyStr ''PN-1001'') (PyStr ''PI-SN-001''))
              = (Inr ?r1, ?dm1)"
    by (simp add: add_part_instance_def data_index_def get_next_id_def save_data_def Let_def)
  have s2: "do_add (run_adds ?dm1 []) (AddPartInstance (PyStr ''PN-2050'') (PyStr ''PI-SN-002''))
              = (Inr ?r2, ?dm2)"
    by (simp add: add_part_instance_def data_index_def get_next_id_def item_get_def save_data_def Let_def)
  have same: "collection_of (AddPartInstance (PyStr ''PN-2050'') (PyStr ''PI-SN-002'')) =
              collection_of (AddPartInstance (PyStr ''PN-1001'') (PyStr ''PI-SN-001'')) \<and>
              id_key_of (AddPartInstance (PyStr ''PN-1001'') (PyStr ''PI-SN-001'')) = Some ''instance_id''"
    by simp
  from get_next_id_max_plus_one
         [of "''log_id''" ?items ?dm0 "[]" "AddPartInstance (PyStr ''PN-1001'') (PyStr ''PI-SN-001'')"
             ?r1 ?dm1 "[]" "AddPartInstance (PyStr ''PN-2050'') (PyStr ''PI-SN-002'')" ?r2 ?dm2
             "''instance_id''"]
  have "get_next_id ?items ''log_id'' = Inr (Max {n. \<exists>item\<in>set ?items. item ''log_id'' = Some (PyInt n)} + 1)"
    and "\<exists>a b. ?r1 ''instance_id'' = Some (PyInt a) \<and> ?r2 ''instance_id'' = Some (PyInt b) \<and> a < b"
    using ne s1 s2 same by blast+
  then show ?thesis using mx s1 s2 by simp
qed

section \<open>Evaluation on the examples\<close>

lemmas example_defs = example_turbine_def example_master_def example_instance_def example_dm_def
  example_record_def
lemmas eval_defs = install_part_def remove_part_def get_part_by_serial_def get_turbine_by_serial_def
  get_all_installation_history_def get_all_part_instances_def get_all_maintenance_logs_def
  data_get_def data_index_def item_index_def item_get_def add_installation_record_def
  get_next_id_def save_data_def Let_def open_records_def is_open_for_def

lemmas query_defs = get_installed_parts_def query_keys_present_def has_open_record_in_def

lemma ex_install:
  "install_part ''2024-05-10'' (example_dm []) (PyStr ''PI-SN-001'') (PyStr ''T-SN-101'') PyNone
     = (Inr (), (example_dm [example_record 1])\<lparr>saves := Suc 0\<rparr>)"
  by (simp add: eval_defs example_defs)

lemma ex_install2:
  "install_part ''2024-05-11'' ((example_dm [example_record 1])\<lparr>saves := Suc 0\<rparr>) (PyStr ''PI-SN-001'') (PyStr ''T-SN-101'') PyNone
     = (Inl AlreadyInstalled, (example_dm [example_record 1])\<lparr>saves := Suc 0\<rparr>)"
  by (simp add: eval_defs example_defs)

section \<open>The loops of install and remove\<close>

lemma history_data:
  "data dm ''installation_history'' = Some hist \<Longrightarrow> get_all_installation_history dm = hist"
  by (simp add: get_all_installation_history_def data_get_def)

lemma open_records_data:
  "data dm ''installation_history'' = Some hist \<Longrightarrow>
     open_records dm iid = filter (is_open_for iid) hist"
  by (simp add: open_records_def get_all_installation_history_def data_get_def)

lemma instances_data:
  "data dm' ''part_instances'' = data dm ''part_instances'' \<Longrightarrow>
     get_all_part_instances dm' = get_all_part_instances dm"
  by (simp add: get_all_part_instances_def data_get_def)

lemma get_part_by_serial_cong:
  "data dm' ''part_instances'' = data dm ''part_instances'' \<Longrightarrow>
     get_part_by_serial dm' sn = get_part_by_serial dm sn"
  by (simp add: get_part_by_serial_def data_get_def)


lemma first_with_serial_mem:
  "first_with_serial xs sn = Inr (Some p) \<Longrightarrow> p \<in> set xs"
proof (induction xs)
  case Nil
  then show ?case by simp
next
  case (Cons x xs)
  then show ?case
    by (cases "x ''serial_number''") (auto simp: item_index_def split: if_splits)
qed

lemma first_with_serial_error:
  "first_with_serial xs sn = Inl e \<Longrightarrow> e = KeyError ''serial_number''"
proof (induction xs)
  case Nil
  then show ?case by simp
next
  case (Cons x xs)
  then show ?case
    by (cases "x ''serial_number''") (auto simp: item_index_def split: if_splits)
qed

lemma already_installed_False:
  "already_installed hist p = Inr False \<Longrightarrow> p ''instance_id'' = Some iid \<Longrightarrow>
     filter (is_open_for iid) hist = [] \<and> (\<forall>r\<in>set hist. r ''instance_id'' \<noteq> None)"
proof (induction hist)
  case Nil
  then show ?case by simp
next
  case (Cons r rest)
  from Cons.prems obtain rid where rid: "r ''instance_id'' = Some rid"
    by (cases "r ''instance_id''") (simp_all add: item_index_def)
  with Cons.prems have no: "\<not> (rid = iid \<and> r ''removal_date'' = None)"
    and rest: "already_installed rest p = Inr False"
    by (auto simp: item_index_def split: if_splits)
  from no rid have "\<not> is_open_for iid r" by (simp add: is_open_for_def)
  with Cons.IH[OF rest Cons.prems(2)] rid show ?case by simp
qed

lemma already_installed_open:
  "\<forall>r\<in>set hist. r ''instance_id'' \<noteq> None \<Longrightarrow> p ''instance_id'' = Some iid \<Longrightarrow>
     already_installed hist p = Inr (\<exists>r\<in>set hist. is_open_for iid r)"
proof (induction hist)
  case Nil
  then show ?case by simp
next
  case (Cons r rest)
  from Cons.prems obtain rid where rid: "r ''instance_id'' = Some rid" by auto
  from Cons have ih: "already_installed rest p = Inr (\<exists>r\<in>set rest. is_open_for iid r)" by simp
  show ?case
  proof (cases "is_open_for iid r")
    case True
    with rid Cons.prems(2) show ?thesis by (simp add: item_index_def is_open_for_def)
  next
    case False
    with rid Cons.prems(2) ih show ?thesis by (auto simp: item_index_def is_open_for_def)
  qed
qed

lemma find_active_record_None:
  "find_active_record hist p = Inr None \<Longrightarrow> p ''instance_id'' = Some iid \<Longrightarrow>
     filter (is_open_for iid) hist = []"
proof (induction hist)
  case Nil
  then show ?case by simp
next
  case (Cons r rest)
  from Cons.prems obtain rid where rid: "r ''instance_id'' = Some rid"
    by (cases "r ''instance_id''") (simp_all add: item_index_def)
  with Cons.prems have no: "\<not> (rid = iid \<and> r ''removal_date'' = None)"
    by (auto simp: item_index_def split: if_splits)
  with rid Cons.prems have rest: "find_active_record rest p = Inr None"
    by (cases "find_active_record rest p")
       (auto simp: item_index_def split: option.splits)
  from no rid have "\<not> is_open_for iid r" by (simp add: is_open_for_def)
  with Cons.IH[OF rest Cons.prems(2)] show ?case by simp
qed

lemma find_active_record_Some:
  "find_active_record hist p = Inr (Some i) \<Longrightarrow>
     \<exists>iid. p ''instance_id'' = Some iid \<and> i < length hist \<and> is_open_for iid (hist ! i)
        \<and> (\<forall>j<i. \<not> is_open_for iid (hist ! j))"
proof (induction hist arbitrary: i)
  case Nil
  then show ?case by simp
next
  case (Cons r rest)
  from Cons.prems obtain rid where rid: "r ''instance_id'' = Some rid"
    by (cases "r ''instance_id''") (simp_all add: item_index_def)
  with Cons.prems obtain pid where pid: "p ''instance_id'' = Some pid"
    by (cases "p ''instance_id''") (simp_all add: item_index_def)
  show ?case
  proof (cases "is_open_for pid r")
    case True
    with rid pid Cons.prems have "i = 0"
      by (simp add: item_index_def is_open_for_def)
    with True pid show ?thesis by simp
  next
    case False
    with rid pid Cons.prems obtain i' where
      rest: "find_active_record rest p = Inr (Some i')" and i: "i = Suc i'"
      by (cases "find_active_record rest p")
         (auto simp: item_index_def is_open_for_def split: option.splits)
    from Cons.IH[OF rest] pid have
      ih: "i' < length rest" "is_open_for pid (rest ! i')"
          "\<forall>j<i'. \<not> is_open_for pid (rest ! j)" by auto
    have "\<forall>j<Suc i'. \<not> is_open_for pid ((r # rest) ! j)"
    proof (intro allI impI)
      fix j assume "j < Suc i'"
      with False ih(3) show "\<not> is_open_for pid ((r # rest) ! j)" by (cases j) auto
    qed
    with pid i ih show ?thesis by simp
  qed
qed

lemma find_active_record_closed:
  "\<forall>r\<in>set hist. r ''instance_id'' \<noteq> None \<Longrightarrow> p ''instance_id'' = Some iid \<Longrightarrow>
     filter (is_open_for iid) hist = [] \<Longrightarrow> find_active_record hist p = Inr None"
proof (induction hist)
  case Nil
  then show ?case by simp
next
  case (Cons r rest)
  from Cons.prems(1) obtain rid where rid: "r ''instance_id'' = Some rid" by auto
  from Cons.prems(3) have no: "\<not> is_open_for iid r" and rest: "filter (is_open_for iid) rest = []"
    by (auto split: if_splits)
  from Cons.IH[OF _ Cons.prems(2) rest] Cons.prems(1)
  have "find_active_record rest p = Inr None" by simp
  with rid no Cons.prems(2) show ?case
    by (simp add: item_index_def is_open_for_def)
qed

lemma find_active_record_first:
  "p ''instance_id'' = Some iid \<Longrightarrow>
   \<forall>x\<in>set pre. x ''instance_id'' \<noteq> None \<and> \<not> is_open_for iid x \<Longrightarrow>
   is_open_for iid r \<Longrightarrow>
     find_active_record (pre @ r # post) p = Inr (Some (length pre))"
proof (induction pre)
  case Nil
  then show ?case by (simp add: item_index_def is_open_for_def)
next
  case (Cons x pre)
  from Cons.prems(2) obtain xid where xid: "x ''instance_id'' = Some xid" by auto
  from Cons.prems(2) have no: "\<not> is_open_for iid x" by simp
  from Cons.IH[OF Cons.prems(1) _ Cons.prems(3)] Cons.prems(2)
  have "find_active_record (pre @ r # post) p = Inr (Some (length pre))" by simp
  with xid no Cons.prems(1) show ?case
    by (simp add: item_index_def is_open_for_def)
qed

lemma find_active_record_exists:
  assumes keys: "\<forall>r\<in>set hist. r ''instance_id'' \<noteq> None"
    and p: "p ''instance_id'' = Some iid"
    and ex: "\<exists>r\<in>set hist. is_open_for iid r"
  shows "\<exists>i. find_active_record hist p = Inr (Some i)"
proof -
  from split_list_first_prop[OF ex] obtain pre r post where
    s: "hist = pre @ r # post" "is_open_for iid r" "\<forall>x\<in>set pre. \<not> is_open_for iid x"
    by blast
  with keys have "\<forall>x\<in>set pre. x ''instance_id'' \<noteq> None \<and> \<not> is_open_for iid x" by simp
  with find_active_record_first[of p iid pre r post] p s
  show ?thesis by simp
qed

lemma filter_update_drop:
  "i < length xs \<Longrightarrow> P (xs ! i) \<Longrightarrow> \<not> P y \<Longrightarrow>
     Suc (length (filter P (xs[i := y]))) = length (filter P xs)"
proof (induction xs arbitrary: i)
  case Nil
  then show ?case by simp
next
  case (Cons x xs)
  then show ?case by (cases i) auto
qed

lemma filter_update_same:
  "\<not> P (xs ! i) \<Longrightarrow> \<not> P y \<Longrightarrow> filter P (xs[i := y]) = filter P xs"
proof (induction xs arbitrary: i)
  case Nil
  then show ?case by simp
next
  case (Cons x xs)
  then show ?case by (cases i) auto
qed


lemma count_list_filter_le: "count_list (filter P xs) x \<le> count_list xs x"
  by (induction xs) auto


section \<open>What a call returns\<close>

lemma add_installation_record_fail:
  "add_installation_record today dm iid tid d = (Inl e, dm') \<Longrightarrow> dm' = dm"
  by (simp add: add_installation_record_def data_index_def Let_def
        split: sum.splits option.splits)

lemma add_installation_record_ok:
  "add_installation_record today dm iid tid d = (Inr r, dm') \<Longrightarrow>
     \<exists>hist n. data dm ''installation_history'' = Some hist \<and>
        get_next_id hist ''installation_id'' = Inr n \<and>
        r = [''installation_id'' \<mapsto> PyInt n, ''instance_id'' \<mapsto> iid,
             ''turbine_id'' \<mapsto> tid,
             ''installation_date'' \<mapsto> (if d = PyNone then PyStr today else d)] \<and>
        data dm' = (data dm)(''installation_history'' \<mapsto> hist @ [r]) \<and>
        saves dm' = Suc (saves dm)"
  by (auto simp: add_installation_record_def data_index_def save_data_def Let_def
        split: sum.splits option.splits)

lemma add_installation_record_error:
  "add_installation_record today dm iid tid d = (Inl e, dm') \<Longrightarrow>
     e = KeyError ''installation_history'' \<or> e = TypeError"
  by (auto simp: add_installation_record_def data_index_def get_next_id_def Let_def
        split: option.splits if_splits)

lemma install_part_fail:
  assumes "install_part today dm sn tsn d = (Inl e, dm')"
  shows "dm' = dm"
proof (cases "get_part_by_serial dm sn")
  case (Inl e1)
  with assms show ?thesis by (simp add: install_part_def)
next
  case (Inr po)
  show ?thesis
  proof (cases po)
    case None
    with Inr assms show ?thesis by (simp add: install_part_def)
  next
    case (Some p)
    note p = Inr[unfolded Some]
    show ?thesis
    proof (cases "get_turbine_by_serial dm tsn")
      case (Inl e2)
      with p assms show ?thesis by (simp add: install_part_def)
    next
      case (Inr t_opt)
      show ?thesis
      proof (cases t_opt)
        case None
        with Inr p assms show ?thesis by (simp add: install_part_def)
      next
        case (Some t)
        note t = Inr[unfolded Some]
        show ?thesis
        proof (cases "already_installed (get_all_installation_history dm) p")
          case (Inl e3)
          with p t assms show ?thesis by (simp add: install_part_def)
        next
          case (Inr b)
          show ?thesis
          proof (cases b)
            case True
            with Inr p t assms show ?thesis by (simp add: install_part_def)
          next
            case False
            with Inr have ai: "already_installed (get_all_installation_history dm) p = Inr False"
              by simp
            show ?thesis
            proof (cases "p ''instance_id''")
              case None
              with ai p t assms show ?thesis by (simp add: install_part_def item_index_def)
            next
              case (Some iid)
              note iid = Some
              show ?thesis
              proof (cases "t ''turbine_id''")
                case None
                with iid ai p t assms show ?thesis by (simp add: install_part_def item_index_def)
              next
                case (Some tid)
                obtain res dm1 where a: "add_installation_record today dm iid tid d = (res, dm1)"
                  by (cases "add_installation_record today dm iid tid d")
                with Some iid ai p t assms have "res = Inl e \<and> dm1 = dm'"
                  by (cases res) (simp_all add: install_part_def item_index_def)
                with a add_installation_record_fail show ?thesis by blast
              qed
            qed
          qed
        qed
      qed
    qed
  qed
qed

lemma install_part_ok:
  assumes "install_part today dm sn tsn d = (Inr (), dm')"
  shows "\<exists>p t iid tid hist n.
           get_part_by_serial dm sn = Inr (Some p) \<and>
           get_turbine_by_serial dm tsn = Inr (Some t) \<and>
           p ''instance_id'' = Some iid \<and> t ''turbine_id'' = Some tid \<and>
           data dm ''installation_history'' = Some hist \<and>
           already_installed hist p = Inr False \<and>
           get_next_id hist ''installation_id'' = Inr n \<and>
           data dm' = (data dm)(''installation_history'' \<mapsto> hist @
                   [[''installation_id'' \<mapsto> PyInt n, ''instance_id'' \<mapsto> iid,
                     ''turbine_id'' \<mapsto> tid,
                     ''installation_date'' \<mapsto> (if d = PyNone then PyStr today else d)]]) \<and>
           saves dm' = Suc (saves dm)"
proof -
  from assms obtain p where p: "get_part_by_serial dm sn = Inr (Some p)"
    by (cases "get_part_by_serial dm sn")
       (auto simp: install_part_def split: option.splits)
  from assms p obtain t where t: "get_turbine_by_serial dm tsn = Inr (Some t)"
    by (cases "get_turbine_by_serial dm tsn")
       (auto simp: install_part_def split: option.splits)
  from assms p t have ai: "already_installed (get_all_installation_history dm) p = Inr False"
    by (cases "already_installed (get_all_installation_history dm) p")
       (auto simp: install_part_def split: bool.splits)
  from assms p t ai obtain iid where iid: "p ''instance_id'' = Some iid"
    by (cases "p ''instance_id''") (auto simp: install_part_def item_index_def)
  from assms p t ai iid obtain tid where tid: "t ''turbine_id'' = Some tid"
    by (cases "t ''turbine_id''") (auto simp: install_part_def item_index_def)
  obtain res dm1 where a: "add_installation_record today dm iid tid d = (res, dm1)"
    by (cases "add_installation_record today dm iid tid d")
  with assms p t ai iid tid obtain r where r: "res = Inr r" "dm1 = dm'"
    by (cases res) (simp_all add: install_part_def item_index_def)
  from add_installation_record_ok[OF a[unfolded r]] obtain hist n where
    h: "data dm ''installation_history'' = Some hist"
       "get_next_id hist ''installation_id'' = Inr n"
       "data dm' = (data dm)(''installation_history'' \<mapsto> hist @
                   [[''installation_id'' \<mapsto> PyInt n, ''instance_id'' \<mapsto> iid,
                     ''turbine_id'' \<mapsto> tid,
                     ''installation_date'' \<mapsto> (if d = PyNone then PyStr today else d)]]) \<and>
           saves dm' = Suc (saves dm)"
    by auto
  from ai h(1) have "already_installed hist p = Inr False"
    by (simp add: get_all_installation_history_def data_get_def)
  with p t iid tid h show ?thesis by blast
qed


lemma install_part_AlreadyInstalled:
  assumes "get_part_by_serial dm sn = Inr (Some p)"
    and "get_turbine_by_serial dm tsn = Inr (Some t)"
    and "already_installed (get_all_installation_history dm) p = Inr True"
  shows "install_part today dm sn tsn d = (Inl AlreadyInstalled, dm)"
  using assms by (simp add: install_part_def)

lemma install_part_not_blocked:
  assumes p: "get_part_by_serial dm sn = Inr (Some p)"
    and ai: "already_installed (get_all_installation_history dm) p = Inr False"
  shows "fst (install_part today dm sn tsn d) \<noteq> Inl AlreadyInstalled"
proof
  assume "fst (install_part today dm sn tsn d) = Inl AlreadyInstalled"
  then obtain dm' where blocked: "install_part today dm sn tsn d = (Inl AlreadyInstalled, dm')"
    by (cases "install_part today dm sn tsn d") simp
  show False
  proof (cases "get_turbine_by_serial dm tsn")
    case (Inl e)
    then have "e = KeyError ''serial_number''"
      by (simp add: get_turbine_by_serial_def first_with_serial_error)
    with Inl p blocked show False by (simp add: install_part_def)
  next
    case (Inr t_opt)
    show False
    proof (cases t_opt)
      case None
      with Inr p blocked show False by (simp add: install_part_def)
    next
      case (Some t)
      show False
      proof (cases "p ''instance_id''")
        case None
        with Inr Some p ai blocked show False by (simp add: install_part_def item_index_def)
      next
        case iid: (Some iid)
        show False
        proof (cases "t ''turbine_id''")
          case None
          with iid Inr Some p ai blocked show False by (simp add: install_part_def item_index_def)
        next
          case tid: (Some tid)
          obtain res dm1 where a: "add_installation_record today dm iid tid d = (res, dm1)"
            by (cases "add_installation_record today dm iid tid d")
          with tid iid Inr Some p ai blocked have "res = Inl AlreadyInstalled"
            by (cases res) (simp_all add: install_part_def item_index_def)
          with a add_installation_record_error[of today dm iid tid d AlreadyInstalled dm1]
          show False by simp
        qed
      qed
    qed
  qed
qed

lemma remove_part_fail:
  assumes "remove_part today dm sn d = (Inl e, dm')"
  shows "dm' = dm"
proof (cases "get_part_by_serial dm sn")
  case (Inl e1)
  with assms show ?thesis by (simp add: remove_part_def)
next
  case (Inr po)
  show ?thesis
  proof (cases po)
    case None
    with Inr assms show ?thesis by (simp add: remove_part_def)
  next
    case (Some p)
    note p = Inr[unfolded Some]
    show ?thesis
    proof (cases "data dm ''installation_history''")
      case None
      with p assms show ?thesis by (simp add: remove_part_def data_index_def)
    next
      case (Some hist)
      note hist = Some
      show ?thesis
      proof (cases "find_active_record hist p")
        case (Inl e2)
        with p hist assms show ?thesis by (simp add: remove_part_def data_index_def)
      next
        case (Inr io)
        with p hist assms show ?thesis
          by (cases io) (simp_all add: remove_part_def data_index_def)
      qed
    qed
  qed
qed

lemma remove_part_ok:
  assumes "remove_part today dm sn d = (Inr (), dm')"
  shows "\<exists>p hist i.
           get_part_by_serial dm sn = Inr (Some p) \<and>
           data dm ''installation_history'' = Some hist \<and>
           find_active_record hist p = Inr (Some i) \<and>
           data dm' = (data dm)(''installation_history'' \<mapsto>
                    hist[i := (hist ! i)(''removal_date'' \<mapsto> (if d = PyNone then PyStr today else d))]) \<and>
           saves dm' = Suc (saves dm)"
proof -
  from assms obtain p where p: "get_part_by_serial dm sn = Inr (Some p)"
    by (cases "get_part_by_serial dm sn")
       (auto simp: remove_part_def split: option.splits)
  from assms p obtain hist where hist: "data dm ''installation_history'' = Some hist"
    by (cases "data dm ''installation_history''")
       (auto simp: remove_part_def data_index_def)
  from assms p hist obtain i where i: "find_active_record hist p = Inr (Some i)"
    by (cases "find_active_record hist p")
       (auto simp: remove_part_def data_index_def split: option.splits)
  from assms p hist i have
    "data dm' = (data dm)(''installation_history'' \<mapsto>
                    hist[i := (hist ! i)(''removal_date'' \<mapsto> (if d = PyNone then PyStr today else d))]) \<and>
           saves dm' = Suc (saves dm)"
    by (auto simp: remove_part_def data_index_def save_data_def Let_def)
  with p hist i show ?thesis by blast
qed


lemma remove_part_at:
  assumes "get_part_by_serial dm sn = Inr (Some p)"
    and "data dm ''installation_history'' = Some hist"
    and "find_active_record hist p = Inr (Some i)"
  shows "remove_part today dm sn d =
           (Inr (), save_data (dm\<lparr>data := (data dm)(''installation_history'' \<mapsto>
              hist[i := (hist ! i)(''removal_date'' \<mapsto> (if d = PyNone then PyStr today else d))])\<rparr>))"
  using assms by (simp add: remove_part_def data_index_def Let_def)

lemma remove_part_keeps_closed:
  assumes rm: "remove_part today dm sn d = (res, dm')"
    and h: "data dm ''installation_history'' = Some hist"
    and j: "j < length hist" "(hist ! j) ''removal_date'' \<noteq> None"
  shows "\<exists>hist'. data dm' ''installation_history'' = Some hist' \<and>
           length hist' = length hist \<and> hist' ! j = hist ! j"
proof (cases res)
  case (Inl e)
  with rm have "dm' = dm" using remove_part_fail by blast
  with h show ?thesis by simp
next
  case (Inr u)
  with rm have "remove_part today dm sn d = (Inr (), dm')" by simp
  from remove_part_ok[OF this] h obtain p i where
    fa: "find_active_record hist p = Inr (Some i)"
    and dm0: "data dm' = (data dm)(''installation_history'' \<mapsto>
                hist[i := (hist ! i)(''removal_date'' \<mapsto> (if d = PyNone then PyStr today else d))])"
    by auto
  from find_active_record_Some[OF fa] obtain pid where "is_open_for pid (hist ! i)" by blast
  then have "(hist ! i) ''removal_date'' = None" by (simp add: is_open_for_def)
  with j(2) have "i \<noteq> j" by auto
  with dm0 show ?thesis by simp
qed

lemma do_call_fail:
  assumes "do_call dm c = (Inl e, dm')"
  shows "dm' = dm"
proof (cases c)
  case (Install today sn tsn d)
  with assms have "install_part today dm sn tsn d = (Inl e, dm')" by simp
  then show ?thesis by (rule install_part_fail)
next
  case (Remove today sn d)
  with assms have "remove_part today dm sn d = (Inl e, dm')" by simp
  then show ?thesis by (rule remove_part_fail)
qed

section \<open>At most one open record\<close>

lemma install_part_open_records:
  assumes "install_part today dm sn tsn d = (Inr (), dm')"
    and "length (open_records dm iid) \<le> 1"
  shows "length (open_records dm' iid) \<le> 1"
proof -
  from install_part_ok[OF assms(1)] obtain p pid tid hist n where
    p: "p ''instance_id'' = Some pid" and h: "data dm ''installation_history'' = Some hist"
    and ai: "already_installed hist p = Inr False"
    and dm0: "data dm' = (data dm)(''installation_history'' \<mapsto> hist @
               [[''installation_id'' \<mapsto> PyInt n, ''instance_id'' \<mapsto> pid,
                 ''turbine_id'' \<mapsto> tid,
                 ''installation_date'' \<mapsto> (if d = PyNone then PyStr today else d)]])"
    by (elim exE conjE) (rule that; assumption)
  define new where "new = [''installation_id'' \<mapsto> PyInt n, ''instance_id'' \<mapsto> pid,
                 ''turbine_id'' \<mapsto> tid,
                 ''installation_date'' \<mapsto> (if d = PyNone then PyStr today else d)]"
  have new: "new ''instance_id'' = Some pid" by (simp add: new_def)
  from dm0 have "data dm' ''installation_history'' = Some (hist @ [new])"
    by (simp add: new_def)
  then have after: "open_records dm' iid = filter (is_open_for iid) (hist @ [new])"
    by (rule open_records_data)
  from already_installed_False[of hist p pid] ai p have none: "filter (is_open_for pid) hist = []" by simp
  show ?thesis
  proof (cases "iid = pid")
    case True
    with none after show ?thesis by simp
  next
    case False
    with new have "\<not> is_open_for iid new" by (simp add: is_open_for_def)
    with assms(2) after open_records_data[OF h, of iid] show ?thesis by simp
  qed
qed


lemma remove_part_open_records:
  assumes "remove_part today dm sn d = (Inr (), dm')"
  shows "length (open_records dm' iid) \<le> length (open_records dm iid)"
proof -
  from remove_part_ok[OF assms] obtain p hist i where
    h: "data dm ''installation_history'' = Some hist"
    and fa: "find_active_record hist p = Inr (Some i)"
    and dm0: "data dm' = (data dm)(''installation_history'' \<mapsto>
                hist[i := (hist ! i)(''removal_date'' \<mapsto> (if d = PyNone then PyStr today else d))])"
    by (elim exE conjE) (rule that; assumption)
  define v where "v = (if d = PyNone then PyStr today else d)"
  from dm0 have "data dm' ''installation_history'' =
                   Some (hist[i := (hist ! i)(''removal_date'' \<mapsto> v)])"
    by (simp add: v_def)
  then have after: "open_records dm' iid =
      filter (is_open_for iid) (hist[i := (hist ! i)(''removal_date'' \<mapsto> v)])"
    by (rule open_records_data)
  from find_active_record_Some[OF fa] have i: "i < length hist" by auto
  have cl: "\<not> is_open_for iid ((hist ! i)(''removal_date'' \<mapsto> v))"
    by (simp add: is_open_for_def)
  have "length (filter (is_open_for iid) (hist[i := (hist ! i)(''removal_date'' \<mapsto> v)]))
          \<le> length (filter (is_open_for iid) hist)"
  proof (cases "is_open_for iid (hist ! i)")
    case True
    from filter_update_drop[of i hist "is_open_for iid" "(hist ! i)(''removal_date'' \<mapsto> v)"] i True cl
    show ?thesis by linarith
  next
    case False
    from filter_update_same[of "is_open_for iid" hist i "(hist ! i)(''removal_date'' \<mapsto> v)"] False cl
    show ?thesis by simp
  qed
  with after open_records_data[OF h, of iid] show ?thesis by simp
qed


lemma open_count_step:
  assumes "length (open_records dm iid) \<le> 1"
  shows "length (open_records (snd (do_call dm c)) iid) \<le> 1"
proof -
  obtain res dm' where r: "do_call dm c = (res, dm')" by (cases "do_call dm c")
  have "length (open_records dm' iid) \<le> 1"
  proof (cases res)
    case (Inl e)
    with r have "do_call dm c = (Inl e, dm')" by simp
    then have "dm' = dm" by (rule do_call_fail)
    with assms show ?thesis by simp
  next
    case (Inr u)
    show ?thesis
    proof (cases c)
      case (Install today sn tsn d)
      with r Inr have "install_part today dm sn tsn d = (Inr (), dm')" by simp
      from install_part_open_records[OF this assms] show ?thesis .
    next
      case (Remove today sn d)
      with r Inr have "remove_part today dm sn d = (Inr (), dm')" by simp
      from remove_part_open_records[OF this, of iid] assms show ?thesis by simp
    qed
  qed
  with r show ?thesis by simp
qed

text \<open>
  C1. Take any instance id and any data manager in which no installation record of that
  instance is open. After every prefix of every sequence of \<^verbatim>\<open>install_part\<close> and
  \<^verbatim>\<open>remove_part\<close> calls, the instance has no open record or exactly one.
\<close>

theorem at_most_one_open_record:
  "open_records dm instance_id = [] \<Longrightarrow>
     length (open_records (run_calls dm (take n calls)) instance_id) \<le> 1"
proof -
  assume none: "open_records dm instance_id = []"
  have run: "length (open_records (run_calls s cs) instance_id) \<le> 1"
    if "length (open_records s instance_id) \<le> 1" for s cs
    using that
  proof (induction cs arbitrary: s)
    case Nil
    then show ?case by simp
  next
    case (Cons c cs)
    from open_count_step[OF Cons.prems]
    have "length (open_records (snd (do_call s c)) instance_id) \<le> 1" .
    from Cons.IH[OF this] show ?case by simp
  qed
  from none have "length (open_records dm instance_id) \<le> 1" by simp
  then show ?thesis by (rule run)
qed

theorem at_most_one_open_record_witness:
  "open_records (example_dm []) (PyInt 1) = [] \<and>
   length (open_records (run_calls (example_dm [])
       (take 2 [Install ''2024-05-10'' (PyStr ''PI-SN-001'') (PyStr ''T-SN-101'') PyNone,
                Install ''2024-05-11'' (PyStr ''PI-SN-001'') (PyStr ''T-SN-101'') PyNone,
                Remove ''2024-05-12'' (PyStr ''PI-SN-001'') PyNone])) (PyInt 1)) \<le> 1 \<and>
   open_records (run_calls (example_dm [])
       [Install ''2024-05-10'' (PyStr ''PI-SN-001'') (PyStr ''T-SN-101'') PyNone,
        Install ''2024-05-11'' (PyStr ''PI-SN-001'') (PyStr ''T-SN-101'') PyNone]) (PyInt 1)
     = [example_record 1]"
proof -
  have h: "open_records (example_dm []) (PyInt 1) = []"
    by (simp add: eval_defs example_defs)
  have run: "run_calls (example_dm [])
       [Install ''2024-05-10'' (PyStr ''PI-SN-001'') (PyStr ''T-SN-101'') PyNone,
        Install ''2024-05-11'' (PyStr ''PI-SN-001'') (PyStr ''T-SN-101'') PyNone]
      = (example_dm [example_record 1])\<lparr>saves := Suc 0\<rparr>"
    by (simp add: ex_install ex_install2)
  have "open_records ((example_dm [example_record 1])\<lparr>saves := Suc 0\<rparr>) (PyInt 1) = [example_record 1]"
    by (simp add: eval_defs example_defs)
  with h run at_most_one_open_record[OF h, of 2
       "[Install ''2024-05-10'' (PyStr ''PI-SN-001'') (PyStr ''T-SN-101'') PyNone,
                Install ''2024-05-11'' (PyStr ''PI-SN-001'') (PyStr ''T-SN-101'') PyNone,
                Remove ''2024-05-12'' (PyStr ''PI-SN-001'') PyNone]"]
  show ?thesis by simp
qed


section \<open>Install refuses an installed part\<close>






section \<open>Remove\<close>



text \<open>
  C4. When the installation history is \<open>pre @ r # post\<close>, with no open record of the
  instance in \<open>pre\<close> and \<open>r\<close> open, \<^verbatim>\<open>remove_part\<close> succeeds, saves once, and the
  history afterwards is \<open>pre\<close>, then \<open>r\<close> with \<^verbatim>\<open>removal_date\<close> set, then
  \<open>post\<close>: the same records at the same positions, only the first open one changed. The
  open records of the instance in \<open>post\<close>, if there are any, stay open.
\<close>

theorem remove_part_closes_first_open_record:
  "get_part_by_serial dm sn = Inr (Some p) \<and> p ''instance_id'' = Some iid \<and>
   data dm ''installation_history'' = Some (pre @ r # post) \<and>
   (\<forall>x\<in>set pre. x ''instance_id'' \<noteq> None \<and> \<not> is_open_for iid x) \<and>
   is_open_for iid r \<longrightarrow>
     (\<exists>dm'. remove_part today dm sn d = (Inr (), dm') \<and>
        data dm' = (data dm)(''installation_history'' \<mapsto>
           pre @ r(''removal_date'' \<mapsto> (if d = PyNone then PyStr today else d)) # post) \<and>
        saves dm' = Suc (saves dm) \<and>
        open_records dm iid = r # open_records dm' iid)"
proof
  assume a: "get_part_by_serial dm sn = Inr (Some p) \<and> p ''instance_id'' = Some iid \<and>
   data dm ''installation_history'' = Some (pre @ r # post) \<and>
   (\<forall>x\<in>set pre. x ''instance_id'' \<noteq> None \<and> \<not> is_open_for iid x) \<and>
   is_open_for iid r"
  define v where "v = (if d = PyNone then PyStr today else d)"
  define dm' where "dm' = save_data (dm\<lparr>data := (data dm)(''installation_history'' \<mapsto>
                          pre @ r(''removal_date'' \<mapsto> v) # post)\<rparr>)"
  from a find_active_record_first[of p iid pre r post]
  have fa: "find_active_record (pre @ r # post) p = Inr (Some (length pre))" by simp
  have upd: "(pre @ r # post)[length pre := ((pre @ r # post) ! length pre)(''removal_date'' \<mapsto> v)]
               = pre @ r(''removal_date'' \<mapsto> v) # post"
    by simp
  from a fa have "remove_part today dm sn d =
      (Inr (), save_data (dm\<lparr>data := (data dm)(''installation_history'' \<mapsto>
         (pre @ r # post)[length pre := ((pre @ r # post) ! length pre)(''removal_date'' \<mapsto> v)])\<rparr>))"
    by (simp add: remove_part_def data_index_def v_def Let_def)
  then have rm: "remove_part today dm sn d = (Inr (), dm')"
    by (simp only: upd dm'_def)
  have d': "data dm' = (data dm)(''installation_history'' \<mapsto> pre @ r(''removal_date'' \<mapsto> v) # post)"
    and s': "saves dm' = Suc (saves dm)"
    by (simp_all add: dm'_def save_data_def)
  from a have pre: "filter (is_open_for iid) pre = []" by (simp add: filter_empty_conv)
  have cl: "\<not> is_open_for iid (r(''removal_date'' \<mapsto> v))" by (simp add: is_open_for_def)
  from d' have h': "data dm' ''installation_history'' = Some (pre @ r(''removal_date'' \<mapsto> v) # post)"
    by simp
  from a have h: "data dm ''installation_history'' = Some (pre @ r # post)" by simp
  from a pre cl have "open_records dm iid = r # open_records dm' iid"
    by (simp add: open_records_def history_data[OF h] history_data[OF h'])
  with rm d' s' show "\<exists>dm'. remove_part today dm sn d = (Inr (), dm') \<and>
        data dm' = (data dm)(''installation_history'' \<mapsto>
           pre @ r(''removal_date'' \<mapsto> (if d = PyNone then PyStr today else d)) # post) \<and>
        saves dm' = Suc (saves dm) \<and>
        open_records dm iid = r # open_records dm' iid"
    unfolding v_def by blast
qed


theorem remove_part_closes_first_open_record_witness:
  "length (open_records (example_dm [example_record 1, example_record 2]) (PyInt 1)) = 2 \<and>
   (\<exists>dm'. remove_part ''2024-06-01'' (example_dm [example_record 1, example_record 2])
              (PyStr ''PI-SN-001'') PyNone = (Inr (), dm') \<and>
      data dm' ''installation_history'' =
        Some [(example_record 1)(''removal_date'' \<mapsto> PyStr ''2024-06-01''), example_record 2] \<and>
      saves dm' = 1 \<and>
      open_records dm' (PyInt 1) = [example_record 2])"
proof -
  let ?dm = "example_dm [example_record 1, example_record 2]"
  have hyp: "get_part_by_serial ?dm (PyStr ''PI-SN-001'') = Inr (Some example_instance) \<and>
     example_instance ''instance_id'' = Some (PyInt 1) \<and>
     data ?dm ''installation_history'' = Some ([] @ example_record 1 # [example_record 2]) \<and>
     (\<forall>x\<in>set []. x ''instance_id'' \<noteq> None \<and> \<not> is_open_for (PyInt 1) x) \<and>
     is_open_for (PyInt 1) (example_record 1)"
    by (simp add: eval_defs example_defs)
  have two: "open_records ?dm (PyInt 1) = [example_record 1, example_record 2]"
    by (simp add: eval_defs example_defs)
  from remove_part_closes_first_open_record
      [where dm = ?dm and sn = "PyStr ''PI-SN-001''" and p = example_instance and iid = "PyInt 1"
         and pre = "[]" and r = "example_record 1" and post = "[example_record 2]"
         and today = "''2024-06-01''" and d = PyNone] hyp
  obtain dm' where
    r: "remove_part ''2024-06-01'' ?dm (PyStr ''PI-SN-001'') PyNone = (Inr (), dm')"
    and d: "data dm' = (data ?dm)(''installation_history'' \<mapsto>
           [] @ (example_record 1)(''removal_date'' \<mapsto> (if PyNone = PyNone then PyStr ''2024-06-01'' else PyNone))
              # [example_record 2])"
    and s: "saves dm' = Suc (saves ?dm)"
    and o: "open_records ?dm (PyInt 1) = example_record 1 # open_records dm' (PyInt 1)"
    by blast
  from d have d': "data dm' ''installation_history'' =
        Some [(example_record 1)(''removal_date'' \<mapsto> PyStr ''2024-06-01''), example_record 2]"
    by simp
  from s have s': "saves dm' = 1" by (simp add: example_dm_def)
  from o two have o': "open_records dm' (PyInt 1) = [example_record 2]" by simp
  from two r d' s' o' show ?thesis by auto
qed


section \<open>Installed parts\<close>

lemma installed_instance_ids_eq:
  "\<forall>rec\<in>set hist. rec ''turbine_id'' \<noteq> None \<and> rec ''instance_id'' \<noteq> None \<Longrightarrow>
     installed_instance_ids hist tid =
       Inr {i. \<exists>rec\<in>set hist. rec ''turbine_id'' = Some tid \<and> rec ''removal_date'' = None \<and>
                 rec ''instance_id'' = Some i}"
proof (induction hist)
  case Nil
  then show ?case by simp
next
  case (Cons r rest)
  from Cons.prems obtain t i where k: "r ''turbine_id'' = Some t" "r ''instance_id'' = Some i"
    by auto
  from Cons have ih: "installed_instance_ids rest tid =
       Inr {i. \<exists>rec\<in>set rest. rec ''turbine_id'' = Some tid \<and> rec ''removal_date'' = None \<and>
                 rec ''instance_id'' = Some i}"
    by simp
  show ?case
  proof (cases "t = tid \<and> r ''removal_date'' = None")
    case True
    with k ih show ?thesis by (auto simp: item_index_def)
  next
    case False
    with k ih show ?thesis by (auto simp: item_index_def)
  qed
qed

lemma instances_in_eq:
  "\<forall>inst\<in>set insts. inst ''instance_id'' \<noteq> None \<Longrightarrow>
     instances_in insts ids = Inr (filter (\<lambda>inst. \<exists>i\<in>ids. inst ''instance_id'' = Some i) insts)"
proof (induction insts)
  case Nil
  then show ?case by simp
next
  case (Cons x rest)
  from Cons.prems obtain i where k: "x ''instance_id'' = Some i" by auto
  from Cons have "instances_in rest ids =
      Inr (filter (\<lambda>inst. \<exists>i\<in>ids. inst ''instance_id'' = Some i) rest)" by simp
  with k show ?case by (simp add: item_index_def)
qed

lemma get_installed_parts_eq:
  assumes "query_keys_present dm"
  shows "get_installed_parts dm tid =
           Inr (filter (has_open_record_in dm tid) (get_all_part_instances dm))"
proof -
  let ?hist = "get_all_installation_history dm"
  let ?ids = "{i. \<exists>rec\<in>set ?hist. rec ''turbine_id'' = Some tid \<and> rec ''removal_date'' = None \<and>
                 rec ''instance_id'' = Some i}"
  from assms have a: "installed_instance_ids ?hist tid = Inr ?ids"
    by (intro installed_instance_ids_eq) (simp add: query_keys_present_def)
  from assms have b: "instances_in (get_all_part_instances dm) ?ids =
      Inr (filter (\<lambda>inst. \<exists>i\<in>?ids. inst ''instance_id'' = Some i) (get_all_part_instances dm))"
    by (intro instances_in_eq) (simp add: query_keys_present_def)
  have "(\<lambda>inst. \<exists>i\<in>?ids. inst ''instance_id'' = Some i) = has_open_record_in dm tid"
    by (rule ext) (auto simp: has_open_record_in_def)
  with a b show ?thesis by (simp add: get_installed_parts_def)
qed

lemma install_then_remove:
  assumes inst: "install_part today dm sn tsn d = (Inr (), dm1)"
    and keys: "query_keys_present dm"
  shows "\<exists>p t tid. get_part_by_serial dm sn = Inr (Some p) \<and>
           get_turbine_by_serial dm tsn = Inr (Some t) \<and> t ''turbine_id'' = Some tid \<and>
           (\<exists>ps. get_installed_parts dm1 tid = Inr ps \<and> p \<in> set ps) \<and>
           (\<exists>dm2. remove_part today' dm1 sn d' = (Inr (), dm2) \<and>
              (\<exists>ps. get_installed_parts dm2 tid = Inr ps \<and> p \<notin> set ps))"
proof -
  from install_part_ok[OF inst] obtain p t iid tid hist n where
    p: "get_part_by_serial dm sn = Inr (Some p)" and t: "get_turbine_by_serial dm tsn = Inr (Some t)"
    and iid: "p ''instance_id'' = Some iid" and tid: "t ''turbine_id'' = Some tid"
    and h: "data dm ''installation_history'' = Some hist"
    and ai: "already_installed hist p = Inr False"
    and dm0: "data dm1 = (data dm)(''installation_history'' \<mapsto> hist @
               [[''installation_id'' \<mapsto> PyInt n, ''instance_id'' \<mapsto> iid,
                 ''turbine_id'' \<mapsto> tid,
                 ''installation_date'' \<mapsto> (if d = PyNone then PyStr today else d)]])"
    by (elim exE conjE) (rule that; assumption)
  define new where "new = [''installation_id'' \<mapsto> PyInt n, ''instance_id'' \<mapsto> iid,
                 ''turbine_id'' \<mapsto> tid,
                 ''installation_date'' \<mapsto> (if d = PyNone then PyStr today else d)]"
  define v where "v = (if d' = PyNone then PyStr today' else d')"
  define new' where "new' = new(''removal_date'' \<mapsto> v)"
  have new: "new ''instance_id'' = Some iid" "new ''turbine_id'' = Some tid"
            "new ''removal_date'' = None"
    by (simp_all add: new_def)
  have new': "new' ''instance_id'' = Some iid" "new' ''turbine_id'' = Some tid"
             "new' ''removal_date'' \<noteq> None"
    by (simp_all add: new'_def new_def)
  from dm0 have h1: "data dm1 ''installation_history'' = Some (hist @ [new])"
    and pi1: "data dm1 ''part_instances'' = data dm ''part_instances''"
    by (simp_all add: new_def)
  from already_installed_False[of hist p iid] ai iid have
    none: "filter (is_open_for iid) hist = []" by simp
  then have closed: "\<forall>x\<in>set hist. \<not> is_open_for iid x" by (simp add: filter_empty_conv)
  from keys h have hk: "\<forall>x\<in>set hist. x ''turbine_id'' \<noteq> None \<and> x ''instance_id'' \<noteq> None"
    by (simp add: query_keys_present_def history_data[OF h])
  from keys have ik: "\<forall>inst\<in>set (get_all_part_instances dm). inst ''instance_id'' \<noteq> None"
    by (simp add: query_keys_present_def)
  from p have pmem: "p \<in> set (get_all_part_instances dm)"
    by (simp add: get_part_by_serial_def get_all_part_instances_def first_with_serial_mem)
  from hk ik new have k1: "query_keys_present dm1"
    by (simp add: query_keys_present_def history_data[OF h1] instances_data[OF pi1])
  from new iid have "has_open_record_in dm1 tid p"
    by (auto simp: has_open_record_in_def history_data[OF h1])
  with pmem get_installed_parts_eq[OF k1, of tid]
  have r1: "\<exists>ps. get_installed_parts dm1 tid = Inr ps \<and> p \<in> set ps"
    by (simp add: instances_data[OF pi1])
  from new have "is_open_for iid new" by (simp add: is_open_for_def)
  with find_active_record_first[of p iid hist new "[]"] iid hk closed
  have fa: "find_active_record (hist @ [new]) p = Inr (Some (length hist))" by simp
  from get_part_by_serial_cong[OF pi1, of sn] p
  have p1: "get_part_by_serial dm1 sn = Inr (Some p)" by simp
  define dm2 where "dm2 = save_data (dm1\<lparr>data := (data dm1)(''installation_history'' \<mapsto>
              (hist @ [new])[length hist := ((hist @ [new]) ! length hist)(''removal_date'' \<mapsto> v)])\<rparr>)"
  from remove_part_at[OF p1 h1 fa, of today' d']
  have rm: "remove_part today' dm1 sn d' = (Inr (), dm2)"
    by (simp only: dm2_def v_def)
  have h2: "data dm2 ''installation_history'' = Some (hist @ [new'])"
    and pi2: "data dm2 ''part_instances'' = data dm ''part_instances''"
    using pi1 by (simp_all add: dm2_def save_data_def new'_def)
  from hk ik new' have k2: "query_keys_present dm2"
    by (simp add: query_keys_present_def history_data[OF h2] instances_data[OF pi2])
  have "\<not> has_open_record_in dm2 tid p"
  proof
    assume "has_open_record_in dm2 tid p"
    then obtain rec where rec: "rec \<in> set (hist @ [new'])" "rec ''removal_date'' = None"
      "rec ''instance_id'' = p ''instance_id''"
      by (auto simp: has_open_record_in_def history_data[OF h2])
    with new'(3) have "rec \<in> set hist" by auto
    with closed have "\<not> is_open_for iid rec" by simp
    with rec iid show False by (simp add: is_open_for_def)
  qed
  with get_installed_parts_eq[OF k2, of tid]
  have r2: "\<exists>ps. get_installed_parts dm2 tid = Inr ps \<and> p \<notin> set ps" by simp
  from p t tid r1 rm r2 show ?thesis by blast
qed

text \<open>
  C6. \<^verbatim>\<open>get_installed_parts\<close> returns the part instances that have an installation
  record with the given \<^verbatim>\<open>turbine_id\<close> and no \<^verbatim>\<open>removal_date\<close>, and no others. Right
  after a successful \<^verbatim>\<open>install_part\<close> of part \<open>p\<close> into turbine \<open>t\<close> the result
  for \<open>t\<close> contains \<open>p\<close>; the following \<^verbatim>\<open>remove_part\<close> of \<open>p\<close> succeeds and
  the result for \<open>t\<close> no longer contains \<open>p\<close>.
\<close>

theorem get_installed_parts_open_on_turbine:
  "(query_keys_present dm \<longrightarrow>
      get_installed_parts dm turbine_id =
        Inr (filter (has_open_record_in dm turbine_id) (get_all_part_instances dm))) \<and>
   (query_keys_present dm \<and> install_part today dm sn tsn d = (Inr (), dm') \<longrightarrow>
      (\<exists>p t tid. get_part_by_serial dm sn = Inr (Some p) \<and>
         get_turbine_by_serial dm tsn = Inr (Some t) \<and> t ''turbine_id'' = Some tid \<and>
         (\<exists>ps. get_installed_parts dm' tid = Inr ps \<and> p \<in> set ps) \<and>
         (\<exists>dm''. remove_part today' dm' sn d' = (Inr (), dm'') \<and>
            (\<exists>ps. get_installed_parts dm'' tid = Inr ps \<and> p \<notin> set ps))))"
proof (intro conjI impI)
  assume "query_keys_present dm"
  then show "get_installed_parts dm turbine_id =
        Inr (filter (has_open_record_in dm turbine_id) (get_all_part_instances dm))"
    by (rule get_installed_parts_eq)
next
  assume "query_keys_present dm \<and> install_part today dm sn tsn d = (Inr (), dm')"
  then have keys: "query_keys_present dm"
    and inst: "install_part today dm sn tsn d = (Inr (), dm')" by simp_all
  from install_then_remove[OF inst keys, of today' d']
  show "\<exists>p t tid. get_part_by_serial dm sn = Inr (Some p) \<and>
         get_turbine_by_serial dm tsn = Inr (Some t) \<and> t ''turbine_id'' = Some tid \<and>
         (\<exists>ps. get_installed_parts dm' tid = Inr ps \<and> p \<in> set ps) \<and>
         (\<exists>dm''. remove_part today' dm' sn d' = (Inr (), dm'') \<and>
            (\<exists>ps. get_installed_parts dm'' tid = Inr ps \<and> p \<notin> set ps))" .
qed

theorem get_installed_parts_open_on_turbine_witness:
  "query_keys_present (example_dm []) \<and>
   install_part ''2024-05-10'' (example_dm []) (PyStr ''PI-SN-001'') (PyStr ''T-SN-101'') PyNone
     = (Inr (), (example_dm [example_record 1])\<lparr>saves := Suc 0\<rparr>) \<and>
   get_installed_parts ((example_dm [example_record 1])\<lparr>saves := Suc 0\<rparr>) (PyInt 1)
     = Inr (filter (has_open_record_in ((example_dm [example_record 1])\<lparr>saves := Suc 0\<rparr>) (PyInt 1))
             [example_instance]) \<and>
   (\<exists>ps. get_installed_parts ((example_dm [example_record 1])\<lparr>saves := Suc 0\<rparr>) (PyInt 1) = Inr ps \<and>
         example_instance \<in> set ps) \<and>
   (\<exists>dm''. remove_part ''2024-06-01'' ((example_dm [example_record 1])\<lparr>saves := Suc 0\<rparr>)
              (PyStr ''PI-SN-001'') PyNone = (Inr (), dm'') \<and>
      (\<exists>ps. get_installed_parts dm'' (PyInt 1) = Inr ps \<and> example_instance \<notin> set ps))"
proof -
  let ?dm1 = "(example_dm [example_record 1])\<lparr>saves := Suc 0\<rparr>"
  have k: "query_keys_present (example_dm [])"
    by (simp add: query_defs eval_defs example_defs)
  have k1: "query_keys_present ?dm1"
    by (simp add: query_defs eval_defs example_defs)
  have i: "install_part ''2024-05-10'' (example_dm []) (PyStr ''PI-SN-001'') (PyStr ''T-SN-101'') PyNone
     = (Inr (), ?dm1)"
    by (simp add: eval_defs example_defs)
  have insts: "get_all_part_instances ?dm1 = [example_instance]"
    by (simp add: eval_defs example_defs)
  have p: "get_part_by_serial (example_dm []) (PyStr ''PI-SN-001'') = Inr (Some example_instance)"
    and t: "get_turbine_by_serial (example_dm []) (PyStr ''T-SN-101'') = Inr (Some example_turbine)"
    and tid: "example_turbine ''turbine_id'' = Some (PyInt 1)"
    by (simp_all add: eval_defs example_defs)
  note at_example = get_installed_parts_open_on_turbine
      [where dm = "example_dm []" and today = "''2024-05-10''" and sn = "PyStr ''PI-SN-001''"
         and tsn = "PyStr ''T-SN-101''" and d = PyNone and dm' = ?dm1
         and today' = "''2024-06-01''" and d' = PyNone]
  from at_example k i obtain p' t' tid' where
    "get_part_by_serial (example_dm []) (PyStr ''PI-SN-001'') = Inr (Some p')"
    "get_turbine_by_serial (example_dm []) (PyStr ''T-SN-101'') = Inr (Some t')"
    "t' ''turbine_id'' = Some tid'"
    and res: "\<exists>ps. get_installed_parts ?dm1 tid' = Inr ps \<and> p' \<in> set ps"
      "\<exists>dm''. remove_part ''2024-06-01'' ?dm1 (PyStr ''PI-SN-001'') PyNone = (Inr (), dm'') \<and>
         (\<exists>ps. get_installed_parts dm'' tid' = Inr ps \<and> p' \<notin> set ps)"
    by blast
  with p t tid have eq: "p' = example_instance" "tid' = PyInt 1" by simp_all
  from get_installed_parts_open_on_turbine[where dm = ?dm1 and turbine_id = "PyInt 1"] k1 insts
  have "get_installed_parts ?dm1 (PyInt 1)
     = Inr (filter (has_open_record_in ?dm1 (PyInt 1)) [example_instance])"
    by simp
  with k i res[unfolded eq] show ?thesis by blast
qed

text \<open>
  C10. The list \<^verbatim>\<open>get_installed_parts\<close> returns is a subsequence of the
  \<^verbatim>\<open>part_instances\<close> collection: its elements come in that collection's order, and no
  element occurs more often than there, however many open records name it; when the
  collection has no duplicates, neither has the result.
\<close>

theorem get_installed_parts_order_and_multiplicity:
  "query_keys_present dm \<longrightarrow>
     (\<exists>ps. get_installed_parts dm turbine_id = Inr ps \<and>
        subseq ps (get_all_part_instances dm) \<and>
        (\<forall>p. count_list ps p \<le> count_list (get_all_part_instances dm) p) \<and>
        (distinct (get_all_part_instances dm) \<longrightarrow> distinct ps))"
proof
  assume "query_keys_present dm"
  from get_installed_parts_eq[OF this, of turbine_id]
  show "\<exists>ps. get_installed_parts dm turbine_id = Inr ps \<and>
        subseq ps (get_all_part_instances dm) \<and>
        (\<forall>p. count_list ps p \<le> count_list (get_all_part_instances dm) p) \<and>
        (distinct (get_all_part_instances dm) \<longrightarrow> distinct ps)"
    by (simp add: count_list_filter_le)
qed


theorem get_installed_parts_order_and_multiplicity_witness:
  "query_keys_present two_parts_dm \<and>
   distinct (get_all_part_instances two_parts_dm) \<and>
   get_installed_parts two_parts_dm (PyInt 1) = Inr [example_instance, second_instance] \<and>
   (\<exists>ps. get_installed_parts two_parts_dm (PyInt 1) = Inr ps \<and>
      subseq ps (get_all_part_instances two_parts_dm) \<and> distinct ps)"
proof -
  have ne: "example_instance \<noteq> second_instance"
  proof
    assume "example_instance = second_instance"
    then have "example_instance ''instance_id'' = second_instance ''instance_id''" by simp
    then show False by (simp add: example_instance_def second_instance_def)
  qed
  have insts: "get_all_part_instances two_parts_dm = [example_instance, second_instance]"
    by (simp add: two_parts_dm_def get_all_part_instances_def data_get_def)
  have k: "query_keys_present two_parts_dm"
    by (simp add: query_defs eval_defs example_defs two_parts_dm_def second_instance_def)
  from ne insts have d: "distinct (get_all_part_instances two_parts_dm)" by simp
  have ev: "get_installed_parts two_parts_dm (PyInt 1) = Inr [example_instance, second_instance]"
    by (simp add: query_defs eval_defs example_defs two_parts_dm_def second_instance_def)
  from get_installed_parts_order_and_multiplicity[of two_parts_dm "PyInt 1"] k d
  have "\<exists>ps. get_installed_parts two_parts_dm (PyInt 1) = Inr ps \<and>
      subseq ps (get_all_part_instances two_parts_dm) \<and> distinct ps"
    by blast
  with k d ev show ?thesis by blast
qed


section \<open>A removal date that is present\<close>

text \<open>
  C9. A record counts as open exactly when it lacks the key \<^verbatim>\<open>removal_date\<close>
  (\<open>record ''removal_date'' = None\<close>); a record that has the key, be it with the value
  \<^verbatim>\<open>None\<close> (\<open>Some PyNone\<close>), does not. For a part whose lookup succeeds, on records
  that carry \<^verbatim>\<open>instance_id\<close>: if some record of the instance lacks the key,
  \<^verbatim>\<open>install_part\<close> takes the ``already installed'' return and \<^verbatim>\<open>remove_part\<close>
  succeeds; if every record of the instance has the key, \<^verbatim>\<open>install_part\<close> does not take
  that return and \<^verbatim>\<open>remove_part\<close> finds no active record. No call of
  \<^verbatim>\<open>remove_part\<close> changes a record that has the key. An instance is in the result of
  \<^verbatim>\<open>get_installed_parts\<close> for a turbine exactly when one of its records on that turbine
  lacks the key.
\<close>

theorem open_exactly_when_removal_date_absent:
  "(get_part_by_serial dm sn = Inr (Some p) \<and> p ''instance_id'' = Some iid \<and>
    (\<forall>rec\<in>set (get_all_installation_history dm). rec ''instance_id'' \<noteq> None) \<longrightarrow>
      (if \<exists>rec\<in>set (get_all_installation_history dm).
            rec ''instance_id'' = Some iid \<and> rec ''removal_date'' = None
       then (get_turbine_by_serial dm tsn = Inr (Some t) \<longrightarrow>
               install_part today dm sn tsn d = (Inl AlreadyInstalled, dm)) \<and>
            (data dm ''installation_history'' \<noteq> None \<longrightarrow>
               fst (remove_part today dm sn d) = Inr ())
       else fst (install_part today dm sn tsn d) \<noteq> Inl AlreadyInstalled \<and>
            (data dm ''installation_history'' \<noteq> None \<longrightarrow>
               remove_part today dm sn d = (Inl NoActiveInstallation, dm)))) \<and>
   (remove_part today dm sn d = (res, dm') \<and> data dm ''installation_history'' = Some hist \<and>
    j < length hist \<and> (hist ! j) ''removal_date'' \<noteq> None \<longrightarrow>
      (\<exists>hist'. data dm' ''installation_history'' = Some hist' \<and>
         length hist' = length hist \<and> hist' ! j = hist ! j)) \<and>
   (query_keys_present dm \<longrightarrow>
      (\<exists>ps. get_installed_parts dm turbine_id = Inr ps \<and>
         (inst \<in> set ps \<longleftrightarrow>
            inst \<in> set (get_all_part_instances dm) \<and>
            (\<exists>rec\<in>set (get_all_installation_history dm).
               rec ''turbine_id'' = Some turbine_id \<and> rec ''removal_date'' = None \<and>
               rec ''instance_id'' = inst ''instance_id''))))"
proof (intro conjI impI)
  let ?hist = "get_all_installation_history dm"
  let ?open = "\<exists>rec\<in>set ?hist. rec ''instance_id'' = Some iid \<and> rec ''removal_date'' = None"
  assume a: "get_part_by_serial dm sn = Inr (Some p) \<and> p ''instance_id'' = Some iid \<and>
    (\<forall>rec\<in>set ?hist. rec ''instance_id'' \<noteq> None)"
  have op: "?open = (\<exists>r\<in>set ?hist. is_open_for iid r)" by (simp add: is_open_for_def)
  from a already_installed_open[of ?hist p iid]
  have ai: "already_installed ?hist p = Inr (\<exists>r\<in>set ?hist. is_open_for iid r)" by simp
  show "if ?open
       then (get_turbine_by_serial dm tsn = Inr (Some t) \<longrightarrow>
               install_part today dm sn tsn d = (Inl AlreadyInstalled, dm)) \<and>
            (data dm ''installation_history'' \<noteq> None \<longrightarrow>
               fst (remove_part today dm sn d) = Inr ())
       else fst (install_part today dm sn tsn d) \<noteq> Inl AlreadyInstalled \<and>
            (data dm ''installation_history'' \<noteq> None \<longrightarrow>
               remove_part today dm sn d = (Inl NoActiveInstallation, dm))"
  proof (cases ?open)
    case True
    with op ai have ai': "already_installed ?hist p = Inr True" by simp
    have i: "get_turbine_by_serial dm tsn = Inr (Some t) \<longrightarrow>
               install_part today dm sn tsn d = (Inl AlreadyInstalled, dm)"
      using a ai' by (simp add: install_part_AlreadyInstalled)
    have r: "data dm ''installation_history'' \<noteq> None \<longrightarrow> fst (remove_part today dm sn d) = Inr ()"
    proof
      assume "data dm ''installation_history'' \<noteq> None"
      then obtain hist where h: "data dm ''installation_history'' = Some hist" by auto
      from True op a find_active_record_exists[of hist p iid]
      obtain i where "find_active_record hist p = Inr (Some i)"
        by (auto simp: history_data[OF h])
      with a h remove_part_at[of dm sn p hist i today d]
      show "fst (remove_part today dm sn d) = Inr ()" by simp
    qed
    from i r show ?thesis unfolding if_P[OF True] by blast
  next
    case False
    with op ai have ai': "already_installed ?hist p = Inr False" by simp
    with a install_part_not_blocked[of dm sn p today tsn d]
    have i: "fst (install_part today dm sn tsn d) \<noteq> Inl AlreadyInstalled" by simp
    have r: "data dm ''installation_history'' \<noteq> None \<longrightarrow>
               remove_part today dm sn d = (Inl NoActiveInstallation, dm)"
    proof
      assume "data dm ''installation_history'' \<noteq> None"
      then obtain hist where h: "data dm ''installation_history'' = Some hist" by auto
      from False have "filter (is_open_for iid) hist = []"
        by (auto simp: history_data[OF h] filter_empty_conv is_open_for_def)
      with a find_active_record_closed[of hist p iid]
      have "find_active_record hist p = Inr None" by (simp add: history_data[OF h])
      with a h show "remove_part today dm sn d = (Inl NoActiveInstallation, dm)"
        by (simp add: remove_part_def data_index_def)
    qed
    from i r show ?thesis unfolding if_not_P[OF False] by blast
  qed
next
  assume "remove_part today dm sn d = (res, dm') \<and> data dm ''installation_history'' = Some hist \<and>
    j < length hist \<and> (hist ! j) ''removal_date'' \<noteq> None"
  then show "\<exists>hist'. data dm' ''installation_history'' = Some hist' \<and>
         length hist' = length hist \<and> hist' ! j = hist ! j"
    using remove_part_keeps_closed by blast
next
  assume k: "query_keys_present dm"
  then have "\<forall>x\<in>set (get_all_part_instances dm). x ''instance_id'' \<noteq> None"
    by (simp add: query_keys_present_def)
  then have "has_open_record_in dm turbine_id inst \<and> inst \<in> set (get_all_part_instances dm) \<longleftrightarrow>
      inst \<in> set (get_all_part_instances dm) \<and>
      (\<exists>rec\<in>set (get_all_installation_history dm).
         rec ''turbine_id'' = Some turbine_id \<and> rec ''removal_date'' = None \<and>
         rec ''instance_id'' = inst ''instance_id'')"
    by (auto simp: has_open_record_in_def)
  with get_installed_parts_eq[OF k, of turbine_id]
  show "\<exists>ps. get_installed_parts dm turbine_id = Inr ps \<and>
         (inst \<in> set ps \<longleftrightarrow>
            inst \<in> set (get_all_part_instances dm) \<and>
            (\<exists>rec\<in>set (get_all_installation_history dm).
               rec ''turbine_id'' = Some turbine_id \<and> rec ''removal_date'' = None \<and>
               rec ''instance_id'' = inst ''instance_id''))"
    by auto
qed

theorem open_exactly_when_removal_date_absent_witness:
  "none_record ''removal_date'' = Some PyNone \<and>
   fst (install_part ''2024-05-11'' (example_dm [none_record])
          (PyStr ''PI-SN-001'') (PyStr ''T-SN-101'') PyNone) \<noteq> Inl AlreadyInstalled \<and>
   fst (install_part ''2024-05-11'' (example_dm [none_record])
          (PyStr ''PI-SN-001'') (PyStr ''T-SN-101'') PyNone) = Inr () \<and>
   remove_part ''2024-06-01'' (example_dm [none_record]) (PyStr ''PI-SN-001'') PyNone
     = (Inl NoActiveInstallation, example_dm [none_record]) \<and>
   install_part ''2024-05-11'' (example_dm [none_record, example_record 2])
          (PyStr ''PI-SN-001'') (PyStr ''T-SN-101'') PyNone
     = (Inl AlreadyInstalled, example_dm [none_record, example_record 2]) \<and>
   fst (remove_part ''2024-06-01'' (example_dm [none_record, example_record 2])
          (PyStr ''PI-SN-001'') PyNone) = Inr () \<and>
   (\<exists>hist'. data (snd (remove_part ''2024-06-01'' (example_dm [none_record, example_record 2])
                        (PyStr ''PI-SN-001'') PyNone)) ''installation_history'' = Some hist' \<and>
      length hist' = 2 \<and> hist' ! 0 = none_record) \<and>
   (\<exists>ps. get_installed_parts (example_dm [none_record]) (PyInt 1) = Inr ps \<and>
      example_instance \<notin> set ps)"
proof -
  let ?dm = "example_dm [none_record]"
  let ?dm2 = "example_dm [none_record, example_record 2]"
  let ?rm = "remove_part ''2024-06-01'' ?dm2 (PyStr ''PI-SN-001'') PyNone"
  have v: "none_record ''removal_date'' = Some PyNone" by (simp add: none_record_def)
  have hyp1: "get_part_by_serial ?dm (PyStr ''PI-SN-001'') = Inr (Some example_instance) \<and>
      example_instance ''instance_id'' = Some (PyInt 1) \<and>
      (\<forall>rec\<in>set (get_all_installation_history ?dm). rec ''instance_id'' \<noteq> None)"
    by (simp add: eval_defs example_defs none_record_def)
  have no: "\<not> (\<exists>rec\<in>set (get_all_installation_history ?dm).
                rec ''instance_id'' = Some (PyInt 1) \<and> rec ''removal_date'' = None)"
    by (simp add: eval_defs example_defs none_record_def)
  have h: "data ?dm ''installation_history'' \<noteq> None" by (simp add: example_dm_def)
  have hyp2: "get_part_by_serial ?dm2 (PyStr ''PI-SN-001'') = Inr (Some example_instance) \<and>
      example_instance ''instance_id'' = Some (PyInt 1) \<and>
      (\<forall>rec\<in>set (get_all_installation_history ?dm2). rec ''instance_id'' \<noteq> None)"
    by (simp add: eval_defs example_defs none_record_def)
  have yes: "\<exists>rec\<in>set (get_all_installation_history ?dm2).
                rec ''instance_id'' = Some (PyInt 1) \<and> rec ''removal_date'' = None"
    by (simp add: eval_defs example_defs none_record_def)
  have t2: "get_turbine_by_serial ?dm2 (PyStr ''T-SN-101'') = Inr (Some example_turbine)"
    and h2: "data ?dm2 ''installation_history'' \<noteq> None"
    by (simp_all add: eval_defs example_defs)
  have hyp3: "?rm = (fst ?rm, snd ?rm) \<and>
      data ?dm2 ''installation_history'' = Some [none_record, example_record 2] \<and>
      0 < length [none_record, example_record 2] \<and>
      ([none_record, example_record 2] ! 0) ''removal_date'' \<noteq> None"
    by (simp add: example_dm_def none_record_def)
  have hyp4: "query_keys_present ?dm"
    by (simp add: query_defs eval_defs example_defs none_record_def)
  have insts: "\<not> (\<exists>rec\<in>set (get_all_installation_history ?dm).
               rec ''turbine_id'' = Some (PyInt 1) \<and> rec ''removal_date'' = None \<and>
               rec ''instance_id'' = example_instance ''instance_id'')"
    by (simp add: eval_defs example_defs none_record_def)
  from open_exactly_when_removal_date_absent
      [where dm = ?dm and sn = "PyStr ''PI-SN-001''" and p = example_instance and iid = "PyInt 1"
         and tsn = "PyStr ''T-SN-101''" and today = "''2024-05-11''" and d = PyNone,
       THEN conjunct1, THEN mp, OF hyp1]
  have c1: "fst (install_part ''2024-05-11'' ?dm (PyStr ''PI-SN-001'') (PyStr ''T-SN-101'') PyNone)
              \<noteq> Inl AlreadyInstalled"
    unfolding if_not_P[OF no] by (rule conjunct1)
  from open_exactly_when_removal_date_absent
      [where dm = ?dm and sn = "PyStr ''PI-SN-001''" and p = example_instance and iid = "PyInt 1"
         and today = "''2024-06-01''" and d = PyNone,
       THEN conjunct1, THEN mp, OF hyp1]
  have "data ?dm ''installation_history'' \<noteq> None \<longrightarrow>
      remove_part ''2024-06-01'' ?dm (PyStr ''PI-SN-001'') PyNone = (Inl NoActiveInstallation, ?dm)"
    unfolding if_not_P[OF no] by (rule conjunct2)
  with h have c2: "remove_part ''2024-06-01'' ?dm (PyStr ''PI-SN-001'') PyNone
                     = (Inl NoActiveInstallation, ?dm)"
    by (rule rev_mp)
  from open_exactly_when_removal_date_absent
      [where dm = ?dm2 and sn = "PyStr ''PI-SN-001''" and p = example_instance and iid = "PyInt 1"
         and tsn = "PyStr ''T-SN-101''" and t = example_turbine
         and today = "''2024-05-11''" and d = PyNone,
       THEN conjunct1, THEN mp, OF hyp2]
  have "get_turbine_by_serial ?dm2 (PyStr ''T-SN-101'') = Inr (Some example_turbine) \<longrightarrow>
      install_part ''2024-05-11'' ?dm2 (PyStr ''PI-SN-001'') (PyStr ''T-SN-101'') PyNone
              = (Inl AlreadyInstalled, ?dm2)"
    unfolding if_P[OF yes] by (rule conjunct1)
  with t2 have c3: "install_part ''2024-05-11'' ?dm2 (PyStr ''PI-SN-001'') (PyStr ''T-SN-101'') PyNone
              = (Inl AlreadyInstalled, ?dm2)"
    by (rule rev_mp)
  from open_exactly_when_removal_date_absent
      [where dm = ?dm2 and sn = "PyStr ''PI-SN-001''" and p = example_instance and iid = "PyInt 1"
         and today = "''2024-06-01''" and d = PyNone,
       THEN conjunct1, THEN mp, OF hyp2]
  have "data ?dm2 ''installation_history'' \<noteq> None \<longrightarrow> fst ?rm = Inr ()"
    unfolding if_P[OF yes] by (rule conjunct2)
  with h2 have c4: "fst ?rm = Inr ()" by (rule rev_mp)
  from open_exactly_when_removal_date_absent
      [where dm = ?dm2 and sn = "PyStr ''PI-SN-001''" and today = "''2024-06-01''" and d = PyNone
         and res = "fst ?rm" and dm' = "snd ?rm" and hist = "[none_record, example_record 2]"
         and j = 0,
       THEN conjunct2, THEN conjunct1, THEN mp, OF hyp3]
  obtain hist' where "data (snd ?rm) ''installation_history'' = Some hist'"
    "length hist' = length [none_record, example_record 2]"
    "hist' ! 0 = [none_record, example_record 2] ! 0"
    by (elim exE conjE) (rule that; assumption)
  then have c5: "\<exists>hist'. data (snd ?rm) ''installation_history'' = Some hist' \<and>
      length hist' = 2 \<and> hist' ! 0 = none_record"
    by simp
  from open_exactly_when_removal_date_absent
      [where dm = ?dm and turbine_id = "PyInt 1" and inst = example_instance,
       THEN conjunct2, THEN conjunct2, THEN mp, OF hyp4]
  obtain ps where ps: "get_installed_parts ?dm (PyInt 1) = Inr ps"
    and iff: "example_instance \<in> set ps \<longleftrightarrow>
            example_instance \<in> set (get_all_part_instances ?dm) \<and>
            (\<exists>rec\<in>set (get_all_installation_history ?dm).
               rec ''turbine_id'' = Some (PyInt 1) \<and> rec ''removal_date'' = None \<and>
               rec ''instance_id'' = example_instance ''instance_id'')"
    by (elim exE conjE) (rule that; assumption)
  from iff insts have "example_instance \<notin> set ps" by (simp only: simp_thms)
  with ps have c6: "\<exists>ps. get_installed_parts ?dm (PyInt 1) = Inr ps \<and> example_instance \<notin> set ps"
    by (intro exI conjI)
  have e1: "fst (install_part ''2024-05-11'' ?dm (PyStr ''PI-SN-001'') (PyStr ''T-SN-101'') PyNone) = Inr ()"
    by (simp add: eval_defs example_defs none_record_def)
  from v c1 e1 c2 c3 c4 c5 c6 show ?thesis by blast
qed

section \<open>The lifecycle view\<close>

lemma get_part_lifecycle_keys:
  assumes "get_part_lifecycle dm instance_id = Inr view"
  shows "dom view = {''part_details'', ''installation_history'', ''maintenance_log''}"
proof -
  from assms obtain p where
    "first_with_instance_id (get_all_part_instances dm) instance_id = Inr (Some p)"
    by (cases "first_with_instance_id (get_all_part_instances dm) instance_id")
       (auto simp: get_part_lifecycle_def split: option.splits)
  moreover from assms this obtain hs where
    "all_with_instance_id (get_all_installation_history dm) instance_id = Inr hs"
    by (cases "all_with_instance_id (get_all_installation_history dm) instance_id")
       (auto simp: get_part_lifecycle_def)
  moreover from assms calculation obtain ls where
    "all_with_instance_id (get_all_maintenance_logs dm) instance_id = Inr ls"
    by (cases "all_with_instance_id (get_all_maintenance_logs dm) instance_id")
       (auto simp: get_part_lifecycle_def)
  ultimately have "view = [''part_details'' \<mapsto> RecordVal p,
                           ''installation_history'' \<mapsto> ListVal hs,
                           ''maintenance_log'' \<mapsto> ListVal ls]"
    using assms by (simp add: get_part_lifecycle_def)
  then show ?thesis by auto
qed

text \<open>
  C7. On the example document the part instance 1 exists and its part master \<^verbatim>\<open>PN-1001\<close>
  is in the \<^verbatim>\<open>part_master\<close> collection, yet the dictionary \<^verbatim>\<open>get_part_lifecycle\<close>
  returns has the keys \<^verbatim>\<open>part_details\<close>, \<^verbatim>\<open>installation_history\<close> and
  \<^verbatim>\<open>maintenance_log\<close> only: there is no part master in it.
\<close>

theorem get_part_lifecycle_omits_part_master:
  "example_master \<in> set (data_get (example_dm [example_record 1]) ''part_master'') \<and>
   example_master ''part_number'' = example_instance ''part_number'' \<and>
   (\<exists>view. get_part_lifecycle (example_dm [example_record 1]) (PyInt 1) = Inr view \<and>
      view ''part_details'' = Some (RecordVal example_instance) \<and>
      view ''installation_history'' = Some (ListVal [example_record 1]) \<and>
      view ''maintenance_log'' = Some (ListVal []) \<and>
      view ''part_master'' = None)"
  by (simp add: get_part_lifecycle_def eval_defs example_defs)

section \<open>The default structure\<close>

text \<open>
  C8. For a missing file \<^verbatim>\<open>load_data\<close> builds four empty collections under the keys
  \<^verbatim>\<open>turbines\<close>, \<^verbatim>\<open>part_masters\<close>, \<^verbatim>\<open>part_instances\<close> and
  \<^verbatim>\<open>installation_records\<close>. The keys \<^verbatim>\<open>part_master\<close>, \<^verbatim>\<open>installation_history\<close> and
  \<^verbatim>\<open>maintenance_log\<close>, which the add functions index, are absent, and these functions raise
  \<^verbatim>\<open>KeyError\<close> on the fresh document.
\<close>

theorem load_data_default_keys:
  "\<exists>dm. load_data None = Inr dm \<and>
      data dm ''turbines'' = Some [] \<and> data dm ''part_instances'' = Some [] \<and>
      data dm ''part_masters'' = Some [] \<and> data dm ''installation_records'' = Some [] \<and>
      data dm ''part_master'' = None \<and> data dm ''installation_history'' = None \<and>
      data dm ''maintenance_log'' = None \<and>
      fst (add_part_master dm (PyStr ''PN-1001'') (PyStr ''Main Bearing'') (PyStr []))
        = Inl (KeyError ''part_master'') \<and>
      fst (add_installation_record ''2024-05-10'' dm (PyInt 1) (PyInt 1) PyNone)
        = Inl (KeyError ''installation_history'') \<and>
      fst (add_maintenance_log ''2024-05-10T12:00:00'' dm (PyInt 1) (PyStr ''Initial inspection complete.'') PyNone)
        = Inl (KeyError ''maintenance_log'')"
  by (simp add: load_data_def add_part_master_def add_maintenance_log_def eval_defs)


end
